theory Spec2Isabelle
  imports Main "HOL-Library.Char_ord" "HOL-Library.Log_Nat"
begin

section \<open>docsExtractor: the data of \<open>index.js\<close>\<close>

text \<open>
  The program reads a list of URLs, and for each URL fetches the page, converts it to
  markdown, has a remote model clean the markdown, writes both texts to disk and records
  the outcome in a report. JavaScript strings are modelled as \<open>string\<close>, one list element
  for each code unit; a thrown exception is a value \<open>Error message\<close> on the left of a sum.
\<close>

datatype error = Error (message: string)

text \<open>The object built by \<open>new URL(url)\<close>, with the two properties the program reads.\<close>

record urlObj =
  hostname :: string
  pathname :: string

text \<open>\<open>DIRS\<close>, the \<open>paths\<close> object of a result, and the result of \<open>extractToMarkdown\<close>.\<close>

record dirs =
  raw_dir :: string
  clean_dir :: string
  reports_dir :: string

record paths =
  raw_path :: string
  clean_path :: string

record extraction =
  clean :: string
  raw :: string
  paths :: paths
  fileName :: string

text \<open>
  An element of \<open>report.details\<close>: the object literal pushed after a success
  (\<open>url, status, fileName, cleanSize, rawSize, compression, paths\<close>) or in the catch block
  (\<open>url, status, error, timestamp\<close>). The \<open>status\<close> property is the constructor.
\<close>

datatype detail =
  Success (url: string) (detail_fileName: string) (cleanSize: nat) (rawSize: nat)
          (compression: string) (detail_paths: paths)
| Failure (url: string) (detail_error: string) (detail_timestamp: string)

fun status :: "detail \<Rightarrow> string" where
  "status (Success u f c r p ps) = ''success''"
| "status (Failure u e t) = ''error''"

record report =
  timestamp :: string
  total :: nat
  successes :: nat
  errors :: nat
  directories :: dirs
  details :: "detail list"

text \<open>
  What \<open>JSON.parse\<close> returns for \<open>linksExtractor.json\<close>, as far as the program inspects
  it: an array (of URL strings, the documented format) or any other JSON value.
\<close>

datatype links = Array "string list" | NotArray

text \<open>
  The world outside the program. A file holds markdown text, the JSON text of a report
  (\<open>JSON.stringify(report, null, 2)\<close>, kept as the report itself), or the first \<open>n\<close> code
  units of such data, which is what a write that broke off leaves behind. The trace lists
  every external action in the order the program performs it.
\<close>

datatype file_content = Text string | Json report | Prefix nat file_content

text \<open>
  How \<open>fs.writeFileSync\<close> fails. The call opens the file with flag \<open>w\<close>, which creates or
  empties it, and then writes. Either the open is refused and nothing changes, or the
  file has been created or emptied and the write breaks off after \<open>n\<close> code units.
\<close>

datatype write_failure = Refused error | Broken error nat

fun failure_error :: "write_failure \<Rightarrow> error" where
  "failure_error (Refused e) = e"
| "failure_error (Broken e n) = e"

datatype event =
  Mkdir string
| ReadFile string
| HttpGet string
| HttpPost string
| WriteFile string
| Sleep nat

record state =
  files :: "string \<rightharpoonup> file_content"
  folders :: "string set"
  trace :: "event list"

text \<open>
  The collaborators of the program, as parameters. Each one that talks to the outside
  receives the number of external actions performed so far, so that the same request may
  be answered differently at different moments of a run.
  \<^item> \<open>OPENAI_API_KEY\<close>: \<open>process.env.OPENAI_API_KEY\<close> after \<open>dotenv\<close>, \<open>None\<close> for undefined;
  \<^item> \<open>dirname\<close>: \<open>__dirname\<close>;
  \<^item> \<open>new_URL\<close>: the platform's URL constructor, which throws on a string it cannot parse;
  \<^item> \<open>axios_get\<close>: the body of the page, or the error of a failed request;
  \<^item> \<open>turndown\<close>: the HTML to markdown conversion (it throws on a body that is not text);
  \<^item> \<open>chat_completion\<close>: \<open>response.data.choices[0].message.content\<close> of the POST that
    \<open>organizeMarkdown\<close> sends for a markdown text and its URL, or the error of the request;
  \<^item> \<open>fs_write_failure\<close>: how \<open>fs.writeFileSync\<close> fails on a path whose directory exists,
    if it fails;
  \<^item> \<open>fs_mkdir_error\<close>: the exception of \<open>fs.mkdirSync\<close> on a directory, if it throws;
  \<^item> \<open>links_json\<close>: \<open>JSON.parse(fs.readFileSync(linksPath))\<close>, or the exception of either;
  \<^item> \<open>clock\<close>: \<open>new Date().toISOString()\<close>;
  \<^item> \<open>number_toString\<close>: the platform's rendering of a finite Number.
\<close>

record env =
  OPENAI_API_KEY :: "string option"
  dirname :: string
  new_URL :: "string \<Rightarrow> error + urlObj"
  axios_get :: "nat \<Rightarrow> string \<Rightarrow> error + string"
  turndown :: "string \<Rightarrow> error + string"
  chat_completion :: "nat \<Rightarrow> string \<Rightarrow> string \<Rightarrow> error + string"
  fs_write_failure :: "nat \<Rightarrow> string \<Rightarrow> write_failure option"
  fs_mkdir_error :: "nat \<Rightarrow> string \<Rightarrow> error option"
  links_json :: "error + links"
  clock :: "nat \<Rightarrow> string"
  number_toString :: "rat \<Rightarrow> string"

definition now :: "state \<Rightarrow> nat" where
  "now s = length (trace s)"

definition emit :: "event \<Rightarrow> state \<Rightarrow> state" where
  "emit ev s = s\<lparr>trace := trace s @ [ev]\<rparr>"

text \<open>\<open>path.join\<close> of a directory and a name that holds no separator.\<close>

definition path_join :: "string \<Rightarrow> string \<Rightarrow> string" where
  "path_join d f = d @ ''/'' @ f"

definition DIRS :: "env \<Rightarrow> dirs" where
  "DIRS env = \<lparr>raw_dir = path_join (path_join (dirname env) ''output'') ''raw'',
               clean_dir = path_join (path_join (dirname env) ''output'') ''clean'',
               reports_dir = path_join (path_join (dirname env) ''output'') ''reports''\<rparr>"

section \<open>File names\<close>

text \<open>
  \<open>s.replace(/\/+$/, '')\<close>: the first position from which the rest of the string is a
  non-empty run of slashes up to the end is where the match starts; the match is removed.
\<close>

fun replace_trailing_slashes :: "string \<Rightarrow> string" where
  "replace_trailing_slashes [] = []"
| "replace_trailing_slashes (c # cs) =
     (if c = CHR ''/'' \<and> list_all (\<lambda>d. d = CHR ''/'') cs then []
      else c # replace_trailing_slashes cs)"

text \<open>The character class \<open>[a-zA-Z0-9-_]\<close>, negated in the source.\<close>

definition in_class :: "char \<Rightarrow> bool" where
  "in_class c \<longleftrightarrow>
     (CHR ''a'' \<le> c \<and> c \<le> CHR ''z'') \<or> (CHR ''A'' \<le> c \<and> c \<le> CHR ''Z'') \<or>
     (CHR ''0'' \<le> c \<and> c \<le> CHR ''9'') \<or> c = CHR ''-'' \<or> c = CHR ''_''"

text \<open>\<open>s.replace(/[^a-zA-Z0-9-_]/g, '_')\<close>: every match is one character.\<close>

definition replace_other_chars :: "string \<Rightarrow> string" where
  "replace_other_chars s = map (\<lambda>c. if in_class c then c else CHR ''_'') s"

text \<open>
  \<open>generateFileName\<close>. The two \<open>replace\<close> calls apply to the pathname only: a method call
  binds tighter than \<open>+\<close>. An empty string is falsy.
\<close>

definition generateFileName :: "env \<Rightarrow> string \<Rightarrow> error + string" where
  "generateFileName env u =
     (case new_URL env u of
        Inl e \<Rightarrow> Inl e
      | Inr urlObj \<Rightarrow>
          (let fileName = hostname urlObj @
                 replace_other_chars (replace_trailing_slashes (pathname urlObj))
           in Inr (if fileName = [] \<or> fileName = hostname urlObj
                   then fileName @ ''_index'' else fileName)))"

text \<open>
  The file-name derivation in the words of the specification: the hostname, then the path
  without its trailing slashes and with every character outside the class replaced by an
  underscore; \<open>_index\<close> is appended when the result is empty or is the bare hostname.
\<close>

definition strip_trailing_slashes :: "string \<Rightarrow> string" where
  "strip_trailing_slashes s = rev (dropWhile (\<lambda>c. c = CHR ''/'') (rev s))"

definition sanitized :: "string \<Rightarrow> string" where
  "sanitized p = map (\<lambda>c. if in_class c then c else CHR ''_'') (strip_trailing_slashes p)"

definition fileName_spec :: "urlObj \<Rightarrow> string" where
  "fileName_spec u =
     (let r = hostname u @ sanitized (pathname u)
      in if r = [] \<or> r = hostname u then r @ ''_index'' else r)"

section \<open>Numbers\<close>

text \<open>
  A JavaScript Number is an IEEE 754 double: a finite value, kept as the rational it
  denotes, an infinity or NaN. Each arithmetic operation returns the exact result rounded
  to the nearest double, ties to the even significand. The zero of this model is \<open>+0\<close>:
  the operands below are string lengths and constants, from which \<open>-0\<close> does not arise.
\<close>

datatype number = Num rat | Infinity | NegInfinity | NaN

definition round_half_even :: "rat \<Rightarrow> int" where
  "round_half_even y =
     (let f = \<lfloor>y\<rfloor>; d = y - of_int f
      in if d < 1 / 2 then f else if 1 / 2 < d then f + 1
         else if even f then f else f + 1)"

text \<open>The exponent \<open>e\<close> with \<open>2 ^ e \<le> x < 2 ^ (e + 1)\<close>, for a positive \<open>x\<close>.\<close>

definition ilog2 :: "rat \<Rightarrow> int" where
  "ilog2 x =
     (let (p, q) = quotient_of x; e = bitlen p - bitlen q
      in if x < power_int 2 e then e - 1 else e)"

text \<open>
  Rounding to a double: 53 significant bits, the exponent not below that of the
  subnormals, and an infinity when the rounded magnitude reaches \<open>2 ^ 1024\<close>.
\<close>

definition to_double :: "rat \<Rightarrow> number" where
  "to_double x =
     (if x = 0 then Num 0
      else let e = max (ilog2 \<bar>x\<bar>) (- 1022);
               ulp = power_int 2 (e - 52);
               y = of_int (round_half_even (x / ulp)) * ulp
           in if 2 ^ 1024 \<le> \<bar>y\<bar> then (if 0 < y then Infinity else NegInfinity)
              else Num y)"

text \<open>
  \<open>result.clean.length / result.raw.length\<close>: both operands are lengths, exact Numbers
  (a string has fewer than \<open>2 ^ 53\<close> code units). Division by zero is not an exception.
\<close>

definition js_div_lengths :: "nat \<Rightarrow> nat \<Rightarrow> number" where
  "js_div_lengths a b =
     (if b = 0 then (if a = 0 then NaN else Infinity)
      else to_double (of_nat a / of_nat b))"

text \<open>\<open>1 - x\<close> and \<open>x * 100\<close>.\<close>

fun js_one_minus :: "number \<Rightarrow> number" where
  "js_one_minus (Num q) = to_double (1 - q)"
| "js_one_minus Infinity = NegInfinity"
| "js_one_minus NegInfinity = Infinity"
| "js_one_minus NaN = NaN"

fun js_times_100 :: "number \<Rightarrow> number" where
  "js_times_100 (Num q) = to_double (q * 100)"
| "js_times_100 Infinity = Infinity"
| "js_times_100 NegInfinity = NegInfinity"
| "js_times_100 NaN = NaN"

text \<open>The decimal digits of a natural number.\<close>

fun digits :: "nat \<Rightarrow> string" where
  "digits n = (if n < 10 then [''0123456789'' ! n]
               else digits (n div 10) @ [''0123456789'' ! (n mod 10)])"

declare digits.simps [simp del]

text \<open>
  \<open>x.toFixed(1)\<close>, following the steps of \<open>Number.prototype.toFixed\<close> with one fraction
  digit: a Number that is not finite is rendered by name; the sign is split off; from
  \<open>10 ^ 21\<close> on the platform's rendering is used; otherwise \<open>n\<close> is the integer with
  \<open>n / 10\<close> nearest to the value (the larger one of two), its digits are padded to two
  characters and the point goes before the last one.
\<close>

definition toFixed1 :: "env \<Rightarrow> number \<Rightarrow> string" where
  "toFixed1 env x =
     (case x of
        NaN \<Rightarrow> ''NaN''
      | Infinity \<Rightarrow> ''Infinity''
      | NegInfinity \<Rightarrow> ''-Infinity''
      | Num q \<Rightarrow>
          (let s = (if q < 0 then ''-'' else []);
               a = \<bar>q\<bar>
           in if 10 ^ 21 \<le> a then s @ number_toString env a
              else let n = nat \<lfloor>a * 10 + 1 / 2\<rfloor>;
                       m = (if n = 0 then ''0'' else digits n);
                       m' = (if length m \<le> 1 then replicate (2 - length m) (CHR ''0'') @ m
                             else m)
                   in s @ take (length m' - 1) m' @ ''.'' @ drop (length m' - 1) m'))"

text \<open>
  The template literal of the \<open>compression\<close> property:
  \<open>((1 - result.clean.length / result.raw.length) * 100).toFixed(1)\<close> and a percent sign.
\<close>

definition compression_of :: "env \<Rightarrow> nat \<Rightarrow> nat \<Rightarrow> string" where
  "compression_of env cleanLen rawLen =
     toFixed1 env (js_times_100 (js_one_minus (js_div_lengths cleanLen rawLen))) @ ''%''"

section \<open>The extractor\<close>

text \<open>\<open>path.dirname\<close> of a path that holds a separator: what precedes the last one.\<close>

definition dirname_of :: "string \<Rightarrow> string" where
  "dirname_of p = rev (drop 1 (dropWhile (\<lambda>c. c \<noteq> CHR ''/'') (rev p)))"

text \<open>The exception of an open in a directory that does not exist.\<close>

definition ENOENT :: "string \<Rightarrow> error" where
  "ENOENT p = Error (''ENOENT: no such file or directory, open '' @ [CHR 0x27] @ p @ [CHR 0x27])"

text \<open>
  \<open>fs.writeFileSync(path, data)\<close>. In a directory that does not exist the open throws.
  Otherwise the call stores the data at the path, replacing what was there, or it fails:
  a refused open leaves the file system as it was, a write that breaks off leaves the
  file with the first code units of the data, whatever it held before.
\<close>

definition writeFileSync :: "env \<Rightarrow> string \<Rightarrow> file_content \<Rightarrow> state \<Rightarrow> (error + unit) \<times> state" where
  "writeFileSync env p d s =
     (if dirname_of p \<notin> folders s then (Inl (ENOENT p), emit (WriteFile p) s)
      else case fs_write_failure env (now s) p of
        None \<Rightarrow> (Inr (), emit (WriteFile p) (s\<lparr>files := (files s)(p \<mapsto> d)\<rparr>))
      | Some (Refused e) \<Rightarrow> (Inl e, emit (WriteFile p) s)
      | Some (Broken e n) \<Rightarrow>
          (Inl e, emit (WriteFile p) (s\<lparr>files := (files s)(p \<mapsto> Prefix n d)\<rparr>)))"

text \<open>
  \<open>ChatGPTService.organizeMarkdown\<close>: one POST to the completions endpoint; its catch
  block logs and throws the same error again.
\<close>

definition baseURL :: string where
  "baseURL = ''https://api.openai.com/v1/chat/completions''"

definition organizeMarkdown :: "env \<Rightarrow> string \<Rightarrow> string \<Rightarrow> state \<Rightarrow> (error + string) \<times> state" where
  "organizeMarkdown env markdownContent u s =
     (chat_completion env (now s) markdownContent u, emit (HttpPost baseURL) s)"

text \<open>
  \<open>extractToMarkdown\<close>: fetch, convert, clean, then the two writes, raw before clean. The
  first exception ends the function: the catch block logs it and throws it again.
\<close>

definition extractToMarkdown :: "env \<Rightarrow> string \<Rightarrow> state \<Rightarrow> (error + extraction) \<times> state" where
  "extractToMarkdown env u s =
     (let s1 = emit (HttpGet u) s in
      case axios_get env (now s) u of
        Inl e \<Rightarrow> (Inl e, s1)
      | Inr html \<Rightarrow>
     (case turndown env html of
        Inl e \<Rightarrow> (Inl e, s1)
      | Inr rawMarkdown \<Rightarrow>
     (case organizeMarkdown env rawMarkdown u s1 of
        (Inl e, s2) \<Rightarrow> (Inl e, s2)
      | (Inr cleanMarkdown, s2) \<Rightarrow>
     (case generateFileName env u of
        Inl e \<Rightarrow> (Inl e, s2)
      | Inr name \<Rightarrow>
     (let rawPath = path_join (raw_dir (DIRS env)) (name @ ''.md'');
          cleanPath = path_join (clean_dir (DIRS env)) (name @ ''.md'') in
      case writeFileSync env rawPath (Text rawMarkdown) s2 of
        (Inl e, s3) \<Rightarrow> (Inl e, s3)
      | (Inr _, s3) \<Rightarrow>
     (case writeFileSync env cleanPath (Text cleanMarkdown) s3 of
        (Inl e, s4) \<Rightarrow> (Inl e, s4)
      | (Inr _, s4) \<Rightarrow>
          (Inr \<lparr>clean = cleanMarkdown, raw = rawMarkdown,
                paths = \<lparr>raw_path = rawPath, clean_path = cleanPath\<rparr>,
                fileName = name\<rparr>, s4)))))))"

section \<open>The runner\<close>

text \<open>
  \<open>fs.mkdirSync(dir, { recursive: true })\<close>: the directory is created (with those above
  it, which the program never consults), or the call throws and creates nothing.
\<close>

definition mkdirSync :: "env \<Rightarrow> string \<Rightarrow> state \<Rightarrow> (error + unit) \<times> state" where
  "mkdirSync env d s =
     (case fs_mkdir_error env (now s) d of
        Some e \<Rightarrow> (Inl e, emit (Mkdir d) s)
      | None \<Rightarrow> (Inr (), emit (Mkdir d) (s\<lparr>folders := insert d (folders s)\<rparr>)))"

text \<open>
  \<open>createDirectories\<close>: each of the three directories, in the order of \<open>DIRS\<close>, is created
  unless it exists. An exception of \<open>mkdirSync\<close> ends the \<open>forEach\<close>.
\<close>

definition ensure_dir :: "env \<Rightarrow> string \<Rightarrow> state \<Rightarrow> (error + unit) \<times> state" where
  "ensure_dir env d s = (if d \<in> folders s then (Inr (), s) else mkdirSync env d s)"

definition createDirectories :: "env \<Rightarrow> state \<Rightarrow> (error + unit) \<times> state" where
  "createDirectories env s =
     (case ensure_dir env (raw_dir (DIRS env)) s of
        (Inl e, s1) \<Rightarrow> (Inl e, s1)
      | (Inr _, s1) \<Rightarrow>
     (case ensure_dir env (clean_dir (DIRS env)) s1 of
        (Inl e, s2) \<Rightarrow> (Inl e, s2)
      | (Inr _, s2) \<Rightarrow> ensure_dir env (reports_dir (DIRS env)) s2))"

text \<open>
  The body of the \<open>for\<close> loop of \<open>processLinks\<close>. The try block counts the success, pushes
  the entry and then waits one second; the catch block counts the error and pushes its
  entry.
\<close>

definition loop_body :: "env \<Rightarrow> string \<Rightarrow> report \<times> state \<Rightarrow> report \<times> state" where
  "loop_body env u rs =
     (case rs of (rep, s) \<Rightarrow>
       (case extractToMarkdown env u s of
          (Inr result, s') \<Rightarrow>
            (rep\<lparr>successes := successes rep + 1,
                 details := details rep @
                   [Success u (fileName result) (length (clean result)) (length (raw result))
                      (compression_of env (length (clean result)) (length (raw result)))
                      (paths result)]\<rparr>,
             emit (Sleep 1000) s')
        | (Inl e, s') \<Rightarrow>
            (rep\<lparr>errors := errors rep + 1,
                 details := details rep @ [Failure u (message e) (clock env (now s'))]\<rparr>,
             s')))"

fun loop :: "env \<Rightarrow> string list \<Rightarrow> report \<times> state \<Rightarrow> report \<times> state" where
  "loop env [] rs = rs"
| "loop env (u # us) rs = loop env us (loop_body env u rs)"

text \<open>
  How a run ends: \<open>process.exit(n)\<close>, the end of \<open>processLinks\<close>, or an exception that
  leaves \<open>processLinks\<close>. The call \<open>processLinks()\<close> of the last lines has no handler, so
  such an exception is an unhandled rejection, on which the runtime ends the process with
  status 1 (the default since Node 15; the optional chaining of \<open>chatGPT.js\<close> needs 14).
\<close>

datatype outcome = Exited nat | Completed | Uncaught error


definition new_report :: "env \<Rightarrow> string list \<Rightarrow> state \<Rightarrow> report" where
  "new_report env ls s =
     \<lparr>timestamp = clock env (now s), total = length ls, successes = 0, errors = 0,
      directories = DIRS env, details = []\<rparr>"

text \<open>\<open>new Date().toISOString().replace(/[:.]/g, '-')\<close> and the two report paths.\<close>

definition file_timestamp :: "string \<Rightarrow> string" where
  "file_timestamp t = map (\<lambda>c. if c = CHR '':'' \<or> c = CHR ''.'' then CHR ''-'' else c) t"

definition reportPath :: "env \<Rightarrow> state \<Rightarrow> string" where
  "reportPath env s =
     path_join (reports_dir (DIRS env))
       (''report_'' @ file_timestamp (clock env (now s)) @ ''.json'')"

definition reportLatestPath :: "env \<Rightarrow> string" where
  "reportLatestPath env = path_join (reports_dir (DIRS env)) ''report_latest.json''"

text \<open>
  The end of \<open>processLinks\<close>: the report is written to the timestamped path and then to
  \<open>report_latest.json\<close>, outside any \<open>try\<close>. Console output is left out.
\<close>

definition saveReport :: "env \<Rightarrow> report \<Rightarrow> state \<Rightarrow> outcome \<times> state" where
  "saveReport env rep s =
     (case writeFileSync env (reportPath env s) (Json rep) s of
        (Inl e, s1) \<Rightarrow> (Uncaught e, s1)
      | (Inr _, s1) \<Rightarrow>
     (case writeFileSync env (reportLatestPath env) (Json rep) s1 of
        (Inl e, s2) \<Rightarrow> (Uncaught e, s2)
      | (Inr _, s2) \<Rightarrow> (Completed, s2)))"

text \<open>
  \<open>processLinks\<close>: the directories, the URL list (its two checks end the process with
  status 1), the loop, the report. Only the body of the loop is inside a \<open>try\<close>.
\<close>

definition linksPath :: "env \<Rightarrow> string" where
  "linksPath env = path_join (dirname env) ''linksExtractor.json''"

definition processLinks :: "env \<Rightarrow> state \<Rightarrow> outcome \<times> state" where
  "processLinks env s =
     (case createDirectories env s of
        (Inl e, s1) \<Rightarrow> (Uncaught e, s1)
      | (Inr _, s1) \<Rightarrow>
     (let s2 = emit (ReadFile (linksPath env)) s1 in
      case links_json env of
        Inl e \<Rightarrow> (Exited 1, s2)
      | Inr NotArray \<Rightarrow> (Exited 1, s2)
      | Inr (Array ls) \<Rightarrow>
          if length ls = 0 then (Exited 1, s2)
          else (case loop env ls (new_report env ls s2, s2) of
                  (rep, s3) \<Rightarrow> saveReport env rep s3)))"

text \<open>
  The module run as a script: the credential check of the top level (an undefined or
  empty value is falsy), then \<open>processLinks()\<close>.
\<close>

definition main :: "env \<Rightarrow> state \<Rightarrow> outcome \<times> state" where
  "main env s =
     (case OPENAI_API_KEY env of
        None \<Rightarrow> (Exited 1, s)
      | Some k \<Rightarrow> if k = [] then (Exited 1, s) else processLinks env s)"

section \<open>A model of the URL constructor\<close>

text \<open>
  The platform's \<open>new URL(input)\<close>, without a base URL, follows the WHATWG URL parser. The
  model below is that parser on a fragment of its inputs and is used where a theorem is
  evaluated at a concrete URL; the general theorems hold for every \<open>new_URL\<close>.
  \<^item> Leading and trailing spaces and control characters are dropped, tabs and newlines
    removed.
  \<^item> The scheme is a letter followed by letters, digits, \<open>+\<close>, \<open>-\<close>, \<open>.\<close> up to a colon. An
    input without such a scheme is rejected, as by the platform: no base URL is given.
  \<^item> The fragment is \<open>http\<close> and \<open>https\<close>, a host of dot-separated labels of letters, digits
    and hyphens that start with a letter (no credentials, no IP address, no \<open>xn--\<close>
    label), an optional port of at most four digits, and a path of characters that the
    parser copies unchanged. Dot segments of the path are resolved; query and fragment
    are cut off. An input outside the fragment is answered with the error too, although
    the platform may accept it: no theorem below evaluates the model there.
\<close>

definition lower :: "char \<Rightarrow> char" where
  "lower c = (if CHR ''A'' \<le> c \<and> c \<le> CHR ''Z'' then char_of (of_char c + (32::nat)) else c)"

definition is_alpha :: "char \<Rightarrow> bool" where
  "is_alpha c \<longleftrightarrow> (CHR ''a'' \<le> c \<and> c \<le> CHR ''z'') \<or> (CHR ''A'' \<le> c \<and> c \<le> CHR ''Z'')"

definition is_digit :: "char \<Rightarrow> bool" where
  "is_digit c \<longleftrightarrow> CHR ''0'' \<le> c \<and> c \<le> CHR ''9''"

definition is_c0_or_space :: "char \<Rightarrow> bool" where
  "is_c0_or_space c \<longleftrightarrow> c \<le> CHR 0x20"

definition trim_input :: "string \<Rightarrow> string" where
  "trim_input s =
     filter (\<lambda>c. c \<noteq> CHR 0x09 \<and> c \<noteq> CHR 0x0A \<and> c \<noteq> CHR 0x0D)
       (rev (dropWhile is_c0_or_space (rev (dropWhile is_c0_or_space s))))"

definition is_scheme_char :: "char \<Rightarrow> bool" where
  "is_scheme_char c \<longleftrightarrow> is_alpha c \<or> is_digit c \<or> c = CHR ''+'' \<or> c = CHR ''-'' \<or> c = CHR ''.''"

text \<open>The scheme, in lower case, and what follows its colon.\<close>

definition scheme_of :: "string \<Rightarrow> (string \<times> string) option" where
  "scheme_of s =
     (case s of
        [] \<Rightarrow> None
      | c # cs \<Rightarrow>
          if is_alpha c then
            (case dropWhile is_scheme_char cs of
               [] \<Rightarrow> None
             | d # ds \<Rightarrow> if d = CHR '':'' then Some (map lower (c # takeWhile is_scheme_char cs), ds)
                         else None)
          else None)"

fun split_on :: "char \<Rightarrow> string \<Rightarrow> string list" where
  "split_on c [] = [[]]"
| "split_on c (x # xs) =
     (if x = c then [] # split_on c xs
      else (case split_on c xs of [] \<Rightarrow> [[x]] | y # ys \<Rightarrow> (x # y) # ys))"

definition label_ok :: "string \<Rightarrow> bool" where
  "label_ok l \<longleftrightarrow>
     (case l of [] \<Rightarrow> False | c # cs \<Rightarrow> is_alpha c) \<and>
     list_all (\<lambda>c. is_alpha c \<or> is_digit c \<or> c = CHR ''-'') l \<and>
     take 4 l \<noteq> ''xn--''"

definition is_path_char :: "char \<Rightarrow> bool" where
  "is_path_char c \<longleftrightarrow> is_alpha c \<or> is_digit c \<or> c \<in> set ''-._~!$&()*+,;=:@/''"

text \<open>
  The path state of the parser, segment by segment: \<open>..\<close> removes the last segment kept
  so far, \<open>.\<close> is skipped, and either of them at the end of the path leaves an empty
  segment behind.
\<close>

fun resolve_segments :: "string list \<Rightarrow> string list \<Rightarrow> string list" where
  "resolve_segments acc [] = acc"
| "resolve_segments acc (seg # rest) =
     (if seg = ''..'' then resolve_segments (butlast acc @ (if rest = [] then [[]] else [])) rest
      else if seg = ''.'' then resolve_segments (acc @ (if rest = [] then [[]] else [])) rest
      else resolve_segments (acc @ [seg]) rest)"

definition Invalid_URL :: error where
  "Invalid_URL = Error ''Invalid URL''"

definition URL_model :: "string \<Rightarrow> error + urlObj" where
  "URL_model input =
     (case scheme_of (trim_input input) of
        None \<Rightarrow> Inl Invalid_URL
      | Some (scheme, rest) \<Rightarrow>
          if scheme \<noteq> ''http'' \<and> scheme \<noteq> ''https'' then Inl Invalid_URL
          else
            (let is_slash = (\<lambda>c. c = CHR ''/'' \<or> c = CHR 0x5C);
                 in_authority = (\<lambda>c. \<not> is_slash c \<and> c \<noteq> CHR ''?'' \<and> c \<noteq> CHR ''#'');
                 r = dropWhile is_slash rest;
                 authority = takeWhile in_authority r;
                 host = map lower (takeWhile (\<lambda>c. c \<noteq> CHR '':'') authority);
                 port = dropWhile (\<lambda>c. c \<noteq> CHR '':'') authority;
                 p = takeWhile (\<lambda>c. c \<noteq> CHR ''?'' \<and> c \<noteq> CHR ''#'') (dropWhile in_authority r)
             in if list_all label_ok (split_on (CHR ''.'') host)
                   \<and> list_all is_digit (drop 1 port) \<and> length port \<le> 5
                   \<and> list_all is_path_char p
                then Inr \<lparr>hostname = host,
                          pathname = concat (map (\<lambda>seg. CHR ''/'' # seg)
                                       (resolve_segments [] (split_on (CHR ''/'') (drop 1 p))))\<rparr>
                else Inl Invalid_URL))"

section \<open>Concrete runs\<close>

text \<open>
  A run in which every collaborator answers: the page is fetched, converted to a
  markdown text of five characters, cleaned to one of three, and every write succeeds.
  The other runs below change one collaborator each.
\<close>

definition env_ok :: env where
  "env_ok =
     \<lparr>OPENAI_API_KEY = Some ''sk-test'',
      dirname = ''/app'',
      new_URL = URL_model,
      axios_get = (\<lambda>t u. Inr ''<h1>Hi</h1>''),
      turndown = (\<lambda>html. Inr ''# Hi!''),
      chat_completion = (\<lambda>t md u. Inr ''# H''),
      fs_write_failure = (\<lambda>t p. None),
      fs_mkdir_error = (\<lambda>t d. None),
      links_json = Inr (Array [''https://a.test/x'']),
      clock = (\<lambda>t. ''2025-07-05T14:44:24.939Z''),
      number_toString = (\<lambda>q. ''1e+21'')\<rparr>"

text \<open>
  An empty file system, and one in which the three output directories exist and an older
  raw file of the URL is present.
\<close>

definition state0 :: state where
  "state0 = \<lparr>files = Map.empty, folders = {}, trace = []\<rparr>"

definition state1 :: state where
  "state1 =
     \<lparr>files = [''/app/output/raw/a.test_x.md'' \<mapsto> Text ''old content''],
      folders = {''/app/output/raw'', ''/app/output/clean'', ''/app/output/reports''},
      trace = []\<rparr>"

definition env_auth_error :: env where
  "env_auth_error =
     env_ok\<lparr>chat_completion := (\<lambda>t md u. Inl (Error ''Request failed with status code 401''))\<rparr>"

definition env_clean_write_fails :: env where
  "env_clean_write_fails =
     env_ok\<lparr>fs_write_failure := (\<lambda>t p. if p = ''/app/output/clean/a.test_x.md''
                                         then Some (Refused (Error ''EACCES: permission denied''))
                                         else None)\<rparr>"

definition env_empty_page :: env where
  "env_empty_page = env_ok\<lparr>axios_get := (\<lambda>t u. Inr []), turndown := (\<lambda>html. Inr [])\<rparr>"

definition env_mixed :: env where
  "env_mixed =
     env_ok\<lparr>links_json := Inr (Array [''https://b.test/'', ''https://a.test/x'', ''https://b.test/'']),
            axios_get := (\<lambda>t u. if u = ''https://b.test/''
                                  then Inl (Error ''timeout of 30000ms exceeded'')
                                  else Inr ''<h1>Hi</h1>'')\<rparr>"

definition env_convert_fails :: env where
  "env_convert_fails = env_ok\<lparr>turndown := (\<lambda>html. Inl (Error ''[object Object] is not a string''))\<rparr>"

definition env_raw_write_fails :: env where
  "env_raw_write_fails =
     env_ok\<lparr>fs_write_failure := (\<lambda>t p. if p = ''/app/output/raw/a.test_x.md''
                                         then Some (Broken (Error ''ENOSPC: no space left on device'') 0)
                                         else None)\<rparr>"






section \<open>Notions used in the statements\<close>

text \<open>
  The state in which the loop of \<open>processLinks\<close> starts, given the state that
  \<open>createDirectories\<close> has left, and the number of waits in a trace.
\<close>

definition start_state :: "env \<Rightarrow> state \<Rightarrow> state" where
  "start_state env s1 = emit (ReadFile (linksPath env)) s1"

fun is_Sleep :: "event \<Rightarrow> bool" where
  "is_Sleep (Sleep ms) = True"
| "is_Sleep ev = False"

definition sleeps :: "state \<Rightarrow> nat" where
  "sleeps s = length (filter is_Sleep (trace s))"





text \<open>
  A percentage rounded to one decimal place, in the words of the specification: the
  tenth nearest to the value (the one of larger magnitude of two), written as its sign,
  its integer part, a point and one digit.
\<close>

definition nearest_tenths :: "rat \<Rightarrow> nat" where
  "nearest_tenths x = nat \<lfloor>\<bar>x\<bar> * 10 + 1 / 2\<rfloor>"


section \<open>Properties of the file-name derivation\<close>

lemma strip_trailing_slashes_Cons:
  "strip_trailing_slashes (c # cs) =
     (if c = CHR ''/'' \<and> list_all (\<lambda>d. d = CHR ''/'') cs then []
      else c # strip_trailing_slashes cs)"
  by (auto simp: strip_trailing_slashes_def dropWhile_append list_all_iff)

text \<open>The regular expression \<open>/\/+$/\<close> removes exactly the trailing slashes.\<close>

lemma replace_trailing_slashes_strip:
  "replace_trailing_slashes s = strip_trailing_slashes s"
proof (induction s)
  case Nil
  show ?case by (simp add: strip_trailing_slashes_def)
next
  case (Cons c cs)
  then show ?case by (simp only: replace_trailing_slashes.simps strip_trailing_slashes_Cons)
qed

lemma generateFileName_fileName_spec:
  "generateFileName env u = map_sum id fileName_spec (new_URL env u)"
  by (cases "new_URL env u")
     (simp_all add: generateFileName_def fileName_spec_def sanitized_def replace_other_chars_def
        replace_trailing_slashes_strip Let_def)

lemma in_class_underscore: "in_class (CHR ''_'')"
  by (simp add: in_class_def)

lemma in_class_replace: "list_all in_class (replace_other_chars s)"
  by (induction s) (simp_all add: replace_other_chars_def in_class_underscore)

lemma in_class_index: "list_all in_class ''_index''"
  by (simp add: in_class_def)

text \<open>
  Claim C6. The file name is a function of the URL alone: on every URL that the URL
  constructor accepts, \<open>generateFileName\<close> returns what the specification describes (the
  hostname, then the path without trailing slashes and with every character outside
  \<open>[A-Za-z0-9-_]\<close> replaced by an underscore, with \<open>_index\<close> appended when the result is
  empty or the bare hostname), so two calls on the same URL agree. For
  \<open>https://example.com/\<close> the name is \<open>example.com_index\<close>, and for
  \<open>https://example.com/docs/page\<close> it is \<open>example.com_docs_page\<close>.
\<close>

theorem generateFileName_deterministic_spec:
  "generateFileName env u = map_sum id fileName_spec (new_URL env u)
   \<and> generateFileName env_ok ''https://example.com/'' = Inr ''example.com_index''
   \<and> generateFileName env_ok ''https://example.com/docs/page'' = Inr ''example.com_docs_page''"
proof (intro conjI)
  show "generateFileName env u = map_sum id fileName_spec (new_URL env u)"
    by (rule generateFileName_fileName_spec)
  show "generateFileName env_ok ''https://example.com/'' = Inr ''example.com_index''"
    by code_simp
  show "generateFileName env_ok ''https://example.com/docs/page'' = Inr ''example.com_docs_page''"
    by code_simp
qed

text \<open>
  Claim C10. The derivation is partial over strings: on \<open>not a url\<close> the URL constructor
  throws and so does \<open>generateFileName\<close>; it throws exactly where the constructor does and
  returns a name for every URL the constructor accepts. The name starts with the hostname
  as it is, and only what follows the hostname is restricted to the characters of the
  class: a dot of the hostname stays in the file name.
\<close>

theorem generateFileName_partial_hostname_verbatim:
  "generateFileName env_ok ''not a url'' = Inl (Error ''Invalid URL'')
   \<and> (\<forall>e. new_URL env u = Inl e \<longrightarrow> generateFileName env u = Inl e)
   \<and> (\<forall>p. new_URL env u = Inr p \<longrightarrow>
         (\<exists>rest. generateFileName env u = Inr (hostname p @ rest) \<and> list_all in_class rest))"
proof (intro conjI allI impI)
  show "generateFileName env_ok ''not a url'' = Inl (Error ''Invalid URL'')"
    by code_simp
next
  fix e assume "new_URL env u = Inl e"
  then show "generateFileName env u = Inl e" by (simp add: generateFileName_def)
next
  fix p assume p: "new_URL env u = Inr p"
  let ?t = "replace_other_chars (replace_trailing_slashes (pathname p))"
  show "\<exists>rest. generateFileName env u = Inr (hostname p @ rest) \<and> list_all in_class rest"
  proof (cases "hostname p @ ?t = [] \<or> hostname p @ ?t = hostname p")
    case True
    then have "generateFileName env u = Inr (hostname p @ (?t @ ''_index''))"
      using p by (simp add: generateFileName_def Let_def)
    moreover have "list_all in_class (?t @ ''_index'')"
      using in_class_replace in_class_index by simp
    ultimately show ?thesis by blast
  next
    case False
    then have "generateFileName env u = Inr (hostname p @ ?t)"
      using p by (simp add: generateFileName_def Let_def)
    then show ?thesis using in_class_replace by blast
  qed
qed

theorem generateFileName_partial_hostname_verbatim_witness:
  "new_URL env_ok ''not a url'' = Inl (Error ''Invalid URL'')
   \<and> generateFileName env_ok ''not a url'' = Inl (Error ''Invalid URL'')
   \<and> new_URL env_ok ''https://example.com/docs'' =
       Inr \<lparr>hostname = ''example.com'', pathname = ''/docs''\<rparr>
   \<and> (\<exists>rest. generateFileName env_ok ''https://example.com/docs'' = Inr (''example.com'' @ rest)
         \<and> list_all in_class rest)"
proof -
  have bad: "new_URL env_ok ''not a url'' = Inl (Error ''Invalid URL'')"
    by code_simp
  have good: "new_URL env_ok ''https://example.com/docs'' =
                Inr \<lparr>hostname = ''example.com'', pathname = ''/docs''\<rparr>"
    by code_simp
  from generateFileName_partial_hostname_verbatim [of env_ok "''not a url''"] bad
  have 1: "generateFileName env_ok ''not a url'' = Inl (Error ''Invalid URL'')"
    by blast
  from generateFileName_partial_hostname_verbatim [of env_ok "''https://example.com/docs''"] good
  have 2: "\<exists>rest. generateFileName env_ok ''https://example.com/docs'' = Inr (''example.com'' @ rest)
             \<and> list_all in_class rest"
    by fastforce
  from bad good 1 2 show ?thesis by blast
qed

section \<open>Properties of the loop\<close>

lemma loop_body_total: "total (fst (loop_body env u (rep, s))) = total rep"
  by (simp add: loop_body_def split: prod.splits sum.splits)

lemma loop_body_counts:
  "successes (fst (loop_body env u (rep, s))) + errors (fst (loop_body env u (rep, s)))
     = Suc (successes rep + errors rep)"
  by (simp add: loop_body_def split: prod.splits sum.splits)

lemma loop_body_urls:
  "map url (details (fst (loop_body env u (rep, s)))) = map url (details rep) @ [u]"
  by (simp add: loop_body_def split: prod.splits sum.splits)

text \<open>
  What the loop keeps: \<open>total\<close> is not touched, each iteration adds one to exactly one of
  the two counters and appends one entry that carries the URL of the iteration.
\<close>

lemma loop_invariant:
  "total (fst (loop env us (rep, s))) = total rep
   \<and> successes (fst (loop env us (rep, s))) + errors (fst (loop env us (rep, s)))
       = successes rep + errors rep + length us
   \<and> map url (details (fst (loop env us (rep, s)))) = map url (details rep) @ us"
proof (induction us arbitrary: rep s)
  case Nil
  show ?case by simp
next
  case (Cons u us)
  obtain rep1 s1 where step: "loop_body env u (rep, s) = (rep1, s1)"
    by (cases "loop_body env u (rep, s)")
  have t: "total rep1 = total rep"
    using loop_body_total [of env u rep s] step by simp
  have c: "successes rep1 + errors rep1 = Suc (successes rep + errors rep)"
    using loop_body_counts [of env u rep s] step by simp
  have d: "map url (details rep1) = map url (details rep) @ [u]"
    using loop_body_urls [of env u rep s] step by simp
  from Cons.IH [of rep1 s1] t c d step show ?case by simp
qed

lemma main_processLinks:
  "OPENAI_API_KEY env = Some k \<Longrightarrow> k \<noteq> [] \<Longrightarrow> main env s = processLinks env s"
  by (simp add: main_def)

lemma files_emit: "files (emit ev s) = files s"
  by (simp add: emit_def)

lemma folders_emit: "folders (emit ev s) = folders s"
  by (simp add: emit_def)

lemma now_emit: "now (emit ev s) = Suc (now s)"
  by (simp add: now_def emit_def)

lemma now_files: "now (s\<lparr>files := f\<rparr>) = now s"
  by (simp add: now_def)

text \<open>What a call of \<open>writeFileSync\<close> does to the state, whether it throws or not.\<close>

lemma writeFileSync_trace:
  "trace (snd (writeFileSync env p d s)) = trace s @ [WriteFile p]"
  by (simp add: writeFileSync_def emit_def split: option.splits write_failure.splits)

lemma writeFileSync_folders: "folders (snd (writeFileSync env p d s)) = folders s"
  by (simp add: writeFileSync_def emit_def split: option.splits write_failure.splits)

lemma writeFileSync_other:
  "q \<noteq> p \<Longrightarrow> files (snd (writeFileSync env p d s)) q = files s q"
  by (simp add: writeFileSync_def emit_def split: option.splits write_failure.splits)

lemma writeFileSync_done:
  "writeFileSync env p d s = (Inr x, s') \<Longrightarrow> files s' = (files s)(p \<mapsto> d)"
  by (auto simp: writeFileSync_def emit_def split: option.splits write_failure.splits if_splits)

lemma writeFileSync_failed:
  "writeFileSync env p d s = (Inl e, s') \<Longrightarrow>
     files s' p = files s p \<or> (\<exists>n. files s' p = Some (Prefix n d))"
  by (auto simp: writeFileSync_def emit_def split: option.splits write_failure.splits if_splits)

lemma writeFileSync_succeeds:
  "dirname_of p \<in> folders s \<Longrightarrow> fs_write_failure env (now s) p = None \<Longrightarrow>
   writeFileSync env p d s = (Inr (), emit (WriteFile p) (s\<lparr>files := (files s)(p \<mapsto> d)\<rparr>))"
  by (simp add: writeFileSync_def)

lemma writeFileSync_refused:
  "dirname_of p \<in> folders s \<Longrightarrow> fs_write_failure env (now s) p = Some (Refused e) \<Longrightarrow>
   writeFileSync env p d s = (Inl e, emit (WriteFile p) s)"
  by (simp add: writeFileSync_def)

lemma writeFileSync_broken:
  "dirname_of p \<in> folders s \<Longrightarrow> fs_write_failure env (now s) p = Some (Broken e n) \<Longrightarrow>
   writeFileSync env p d s = (Inl e, emit (WriteFile p) (s\<lparr>files := (files s)(p \<mapsto> Prefix n d)\<rparr>))"
  by (simp add: writeFileSync_def)

text \<open>The loop creates no directory and removes none.\<close>

lemma folders_extractToMarkdown: "folders (snd (extractToMarkdown env u s)) = folders s"
proof -
  have w: "\<And>p d s r s'. writeFileSync env p d s = (r, s') \<Longrightarrow> folders s' = folders s"
    using writeFileSync_folders by (metis snd_conv)
  show ?thesis
    by (auto simp: extractToMarkdown_def organizeMarkdown_def folders_emit Let_def
             split: sum.splits prod.splits dest!: w)
qed

lemma folders_loop_body: "folders (snd (loop_body env u (rep, s))) = folders s"
proof (cases "extractToMarkdown env u s")
  case (Pair r s')
  have "folders s' = folders s"
    using folders_extractToMarkdown [of env u s] Pair by simp
  then show ?thesis
    using Pair by (cases r) (simp_all add: loop_body_def folders_emit)
qed

lemma folders_loop: "folders (snd (loop env us (rep, s))) = folders s"
proof (induction us arbitrary: rep s)
  case Nil
  show ?case by simp
next
  case (Cons u us)
  obtain rep1 s1 where step: "loop_body env u (rep, s) = (rep1, s1)"
    by (cases "loop_body env u (rep, s)")
  have "folders s1 = folders s"
    using folders_loop_body [of env u rep s] step by simp
  then show ?case using Cons.IH [of rep1 s1] step by simp
qed

text \<open>Creating the directories touches no file and, when it returns, leaves the three directories.\<close>

lemma ensure_dir_files: "files (snd (ensure_dir env d s)) = files s"
  by (simp add: ensure_dir_def mkdirSync_def emit_def split: option.splits)

lemma ensure_dir_done:
  "ensure_dir env d s = (Inr x, s') \<Longrightarrow> d \<in> folders s' \<and> folders s \<subseteq> folders s'"
  by (auto simp: ensure_dir_def mkdirSync_def emit_def split: option.splits if_splits)

lemma createDirectories_files: "files (snd (createDirectories env s)) = files s"
proof -
  have e: "\<And>d s r s'. ensure_dir env d s = (r, s') \<Longrightarrow> files s' = files s"
    using ensure_dir_files by (metis snd_conv)
  show ?thesis
    by (auto simp: createDirectories_def ensure_dir_files split: prod.splits sum.splits dest!: e)
qed

lemma createDirectories_done:
  assumes "createDirectories env s = (Inr x, s')"
  shows "raw_dir (DIRS env) \<in> folders s' \<and> clean_dir (DIRS env) \<in> folders s'
         \<and> reports_dir (DIRS env) \<in> folders s'"
  using assms
  by (auto simp: createDirectories_def split: prod.splits sum.splits dest!: ensure_dir_done)

lemma dirname_of_path_join: "CHR ''/'' \<notin> set f \<Longrightarrow> dirname_of (path_join d f) = d"
proof -
  assume f: "CHR ''/'' \<notin> set f"
  then have "dropWhile (\<lambda>c. c \<noteq> CHR ''/'') (rev f @ CHR ''/'' # rev d) = CHR ''/'' # rev d"
    by (subst dropWhile_append2) auto
  then show ?thesis by (simp add: dirname_of_def path_join_def)
qed

text \<open>The two writes of the report.\<close>

lemma saveReport_Completed:
  assumes "fst (saveReport env rep s) = Completed"
  shows "files (snd (saveReport env rep s)) =
           (files s)(reportPath env s \<mapsto> Json rep, reportLatestPath env \<mapsto> Json rep)
         \<and> trace (snd (saveReport env rep s)) =
             trace s @ [WriteFile (reportPath env s), WriteFile (reportLatestPath env)]"
proof -
  obtain r1 s1 where w1: "writeFileSync env (reportPath env s) (Json rep) s = (r1, s1)"
    by (cases "writeFileSync env (reportPath env s) (Json rep) s")
  obtain r2 s2 where w2: "writeFileSync env (reportLatestPath env) (Json rep) s1 = (r2, s2)"
    by (cases "writeFileSync env (reportLatestPath env) (Json rep) s1")
  from assms w1 obtain x where r1: "r1 = Inr x"
    by (cases r1) (simp_all add: saveReport_def)
  from assms w1 w2 r1 obtain y where r2: "r2 = Inr y"
    by (cases r2) (simp_all add: saveReport_def)
  have s2: "snd (saveReport env rep s) = s2"
    using w1 w2 r1 r2 by (simp add: saveReport_def)
  have f1: "files s1 = (files s)(reportPath env s \<mapsto> Json rep)"
    using w1 r1 by (simp add: writeFileSync_done)
  have f2: "files s2 = (files s1)(reportLatestPath env \<mapsto> Json rep)"
    using w2 r2 by (simp add: writeFileSync_done)
  have t1: "trace s1 = trace s @ [WriteFile (reportPath env s)]"
    using writeFileSync_trace [of env "reportPath env s" "Json rep" s] w1 by simp
  have t2: "trace s2 = trace s1 @ [WriteFile (reportLatestPath env)]"
    using writeFileSync_trace [of env "reportLatestPath env" "Json rep" s1] w2 by simp
  show ?thesis by (simp add: s2 f1 f2 t1 t2)
qed

lemma saveReport_other:
  assumes "p \<noteq> reportPath env s" and "p \<noteq> reportLatestPath env"
  shows "files (snd (saveReport env rep s)) p = files s p"
proof -
  obtain r1 s1 where w1: "writeFileSync env (reportPath env s) (Json rep) s = (r1, s1)"
    by (cases "writeFileSync env (reportPath env s) (Json rep) s")
  obtain r2 s2 where w2: "writeFileSync env (reportLatestPath env) (Json rep) s1 = (r2, s2)"
    by (cases "writeFileSync env (reportLatestPath env) (Json rep) s1")
  have 1: "files s1 p = files s p"
    using writeFileSync_other [OF assms(1), of env "Json rep" s] w1 by simp
  have 2: "files s2 p = files s1 p"
    using writeFileSync_other [OF assms(2), of env "Json rep" s1] w2 by simp
  show ?thesis
    using w1 w2 1 2 by (cases r1; cases r2) (simp_all add: saveReport_def)
qed

lemma saveReport_trace:
  "trace (snd (saveReport env rep s)) = trace s @ [WriteFile (reportPath env s)]
   \<or> trace (snd (saveReport env rep s)) =
       trace s @ [WriteFile (reportPath env s), WriteFile (reportLatestPath env)]"
proof -
  obtain r1 s1 where w1: "writeFileSync env (reportPath env s) (Json rep) s = (r1, s1)"
    by (cases "writeFileSync env (reportPath env s) (Json rep) s")
  obtain r2 s2 where w2: "writeFileSync env (reportLatestPath env) (Json rep) s1 = (r2, s2)"
    by (cases "writeFileSync env (reportLatestPath env) (Json rep) s1")
  have t1: "trace s1 = trace s @ [WriteFile (reportPath env s)]"
    using writeFileSync_trace [of env "reportPath env s" "Json rep" s] w1 by simp
  have t2: "trace s2 = trace s1 @ [WriteFile (reportLatestPath env)]"
    using writeFileSync_trace [of env "reportLatestPath env" "Json rep" s1] w2 by simp
  show ?thesis
    using w1 w2 t1 t2 by (cases r1; cases r2) (simp_all add: saveReport_def)
qed

lemma saveReport_succeeds:
  assumes "reports_dir (DIRS env) \<in> folders s"
    and "CHR ''/'' \<notin> set (clock env (now s))"
    and "fs_write_failure env (now s) (reportPath env s) = None"
    and "fs_write_failure env (Suc (now s)) (reportLatestPath env) = None"
  shows "fst (saveReport env rep s) = Completed"
proof -
  have "CHR ''/'' \<notin> set (''report_'' @ file_timestamp (clock env (now s)) @ ''.json'')"
    using assms(2) by (auto simp: file_timestamp_def)
  then have d1: "dirname_of (reportPath env s) = reports_dir (DIRS env)"
    unfolding reportPath_def by (rule dirname_of_path_join)
  have d2: "dirname_of (reportLatestPath env) = reports_dir (DIRS env)"
    unfolding reportLatestPath_def by (rule dirname_of_path_join) simp
  show ?thesis
    using assms(1,3,4)
    by (simp add: saveReport_def writeFileSync_succeeds d1 d2 now_emit now_files folders_emit)
qed

text \<open>With a credential, the directories and a non-empty list, the run is the loop and the report.\<close>

lemma processLinks_saveReport:
  assumes "createDirectories env s = (Inr x, s1)"
    and "links_json env = Inr (Array us)" and "us \<noteq> []"
    and "loop env us (new_report env us (start_state env s1), start_state env s1) = (rep, s3)"
  shows "processLinks env s = saveReport env rep s3"
  using assms by (simp add: processLinks_def start_state_def Let_def)

lemma main_saveReport:
  assumes "OPENAI_API_KEY env = Some k" and "k \<noteq> []"
    and "createDirectories env s = (Inr x, s1)"
    and "links_json env = Inr (Array us)" and "us \<noteq> []"
  shows "main env s =
           saveReport env (fst (loop env us (new_report env us (start_state env s1), start_state env s1)))
             (snd (loop env us (new_report env us (start_state env s1), start_state env s1)))"
  using main_processLinks [OF assms(1,2)]
        processLinks_saveReport [OF assms(3,4,5) prod.collapse [symmetric]]
  by simp

text \<open>A run in which no write is refused and no timestamp holds a slash completes.\<close>

lemma main_Completed:
  assumes "OPENAI_API_KEY env = Some k" and "k \<noteq> []"
    and "createDirectories env s = (Inr x, s1)"
    and "links_json env = Inr (Array us)" and "us \<noteq> []"
    and "\<And>t p. fs_write_failure env t p = None"
    and "\<And>t. CHR ''/'' \<notin> set (clock env t)"
  shows "fst (main env s) = Completed"
proof -
  let ?l = "loop env us (new_report env us (start_state env s1), start_state env s1)"
  have "folders (snd ?l) = folders (start_state env s1)" by (rule folders_loop)
  then have "reports_dir (DIRS env) \<in> folders (snd ?l)"
    using createDirectories_done [OF assms(3)] by (simp add: start_state_def folders_emit)
  then have "fst (saveReport env (fst ?l) (snd ?l)) = Completed"
    using assms(6,7) by (intro saveReport_succeeds) simp_all
  then show ?thesis
    using main_saveReport [OF assms(1-5)] by simp
qed

text \<open>
  Claim C4. For every non-empty URL list (with a credential and the output directories,
  without which no loop runs), the report that the loop hands over to be written has
  \<open>total\<close> equal to the length of the list and \<open>successes + errors\<close> equal to \<open>total\<close>; it
  is what \<open>report_latest.json\<close> holds when the run completes.
\<close>

theorem report_counts_match_url_list:
  assumes "OPENAI_API_KEY env = Some k" and "k \<noteq> []"
    and "createDirectories env s = (Inr x, s1)"
    and "links_json env = Inr (Array us)" and "us \<noteq> []"
  shows "case loop env us (new_report env us (start_state env s1), start_state env s1) of
           (rep, s3) \<Rightarrow>
             main env s = saveReport env rep s3
             \<and> total rep = length us \<and> successes rep + errors rep = total rep
             \<and> (fst (main env s) = Completed \<longrightarrow>
                  files (snd (main env s)) (reportLatestPath env) = Some (Json rep))"
proof -
  let ?s = "start_state env s1"
  obtain rep s3 where l: "loop env us (new_report env us ?s, ?s) = (rep, s3)"
    by (cases "loop env us (new_report env us ?s, ?s)")
  have m: "main env s = saveReport env rep s3"
    using main_saveReport [OF assms] l by simp
  have t: "total rep = length us"
    using loop_invariant [of env us "new_report env us ?s" ?s] l by (simp add: new_report_def)
  have c: "successes rep + errors rep = length us"
    using loop_invariant [of env us "new_report env us ?s" ?s] l by (simp add: new_report_def)
  have f: "fst (main env s) = Completed \<longrightarrow>
             files (snd (main env s)) (reportLatestPath env) = Some (Json rep)"
    using saveReport_Completed [of env rep s3] m by simp
  from m t c f show ?thesis by (simp add: l)
qed

lemma env_mixed_facts:
  "OPENAI_API_KEY env_mixed = Some ''sk-test''"
  "links_json env_mixed =
     Inr (Array [''https://b.test/'', ''https://a.test/x'', ''https://b.test/''])"
  "fs_write_failure env_mixed t p = None"
  "CHR ''/'' \<notin> set (clock env_mixed t)"
  by (simp_all add: env_mixed_def env_ok_def)

lemma env_mixed_directories:
  "createDirectories env_mixed state0 = (Inr (), snd (createDirectories env_mixed state0))"
proof -
  have "fst (createDirectories env_mixed state0) = Inr ()" by code_simp
  then show ?thesis by (simp add: prod_eq_iff)
qed

theorem report_counts_match_url_list_witness:
  "OPENAI_API_KEY env_mixed = Some ''sk-test'' \<and> ''sk-test'' \<noteq> []
   \<and> fst (createDirectories env_mixed state0) = Inr ()
   \<and> links_json env_mixed =
       Inr (Array [''https://b.test/'', ''https://a.test/x'', ''https://b.test/''])
   \<and> fst (main env_mixed state0) = Completed
   \<and> (\<exists>rep. files (snd (main env_mixed state0)) (reportLatestPath env_mixed) = Some (Json rep)
           \<and> total rep = 3 \<and> successes rep + errors rep = total rep)"
proof -
  note k = env_mixed_facts(1) and l = env_mixed_facts(2)
  have c: "fst (main env_mixed state0) = Completed"
    using k _ env_mixed_directories l _ env_mixed_facts(3,4)
    by (rule main_Completed) simp_all
  have d: "fst (createDirectories env_mixed state0) = Inr ()"
    using env_mixed_directories by (metis fst_conv)
  from report_counts_match_url_list [OF k _ env_mixed_directories l] c
  have "\<exists>rep. files (snd (main env_mixed state0)) (reportLatestPath env_mixed) = Some (Json rep)
           \<and> total rep = 3 \<and> successes rep + errors rep = total rep"
    by (auto simp: numeral_3_eq_3 split: prod.splits)
  with k l c d show ?thesis by simp
qed

text \<open>
  Claim C5. For every non-empty URL list, the details of the report that the loop hands
  over to be written have one entry for each input URL, in the input order: entry \<open>i\<close>
  carries URL \<open>i\<close> of the list, whether that URL succeeded or failed, and a URL that
  occurs twice has two entries. It is what \<open>report_latest.json\<close> holds when the run
  completes.
\<close>

theorem report_details_follow_input_order:
  assumes "OPENAI_API_KEY env = Some k" and "k \<noteq> []"
    and "createDirectories env s = (Inr x, s1)"
    and "links_json env = Inr (Array us)" and "us \<noteq> []"
  shows "case loop env us (new_report env us (start_state env s1), start_state env s1) of
           (rep, s3) \<Rightarrow>
             main env s = saveReport env rep s3
             \<and> length (details rep) = length us
             \<and> (\<forall>i < length us. url (details rep ! i) = us ! i)
             \<and> map url (details rep) = us
             \<and> (fst (main env s) = Completed \<longrightarrow>
                  files (snd (main env s)) (reportLatestPath env) = Some (Json rep))"
proof -
  let ?s = "start_state env s1"
  obtain rep s3 where l: "loop env us (new_report env us ?s, ?s) = (rep, s3)"
    by (cases "loop env us (new_report env us ?s, ?s)")
  have m: "main env s = saveReport env rep s3"
    using main_saveReport [OF assms] l by simp
  have u: "map url (details rep) = us"
    using loop_invariant [of env us "new_report env us ?s" ?s] l by (simp add: new_report_def)
  have len: "length (details rep) = length us"
    using arg_cong [OF u, of length] by simp
  have nth: "\<forall>i < length us. url (details rep ! i) = us ! i"
  proof (intro allI impI)
    fix i assume "i < length us"
    then have "i < length (details rep)" using len by simp
    then have "map url (details rep) ! i = url (details rep ! i)" by (rule nth_map)
    then show "url (details rep ! i) = us ! i" using u by simp
  qed
  have f: "fst (main env s) = Completed \<longrightarrow>
             files (snd (main env s)) (reportLatestPath env) = Some (Json rep)"
    using saveReport_Completed [of env rep s3] m by simp
  from m u len nth f show ?thesis by (simp add: l)
qed

theorem report_details_follow_input_order_witness:
  "OPENAI_API_KEY env_mixed = Some ''sk-test'' \<and> ''sk-test'' \<noteq> []
   \<and> fst (createDirectories env_mixed state0) = Inr ()
   \<and> links_json env_mixed =
       Inr (Array [''https://b.test/'', ''https://a.test/x'', ''https://b.test/''])
   \<and> fst (main env_mixed state0) = Completed
   \<and> (\<exists>rep. files (snd (main env_mixed state0)) (reportLatestPath env_mixed) = Some (Json rep)
           \<and> map url (details rep) = [''https://b.test/'', ''https://a.test/x'', ''https://b.test/''])"
proof -
  note k = env_mixed_facts(1) and l = env_mixed_facts(2)
  have c: "fst (main env_mixed state0) = Completed"
    using k _ env_mixed_directories l _ env_mixed_facts(3,4)
    by (rule main_Completed) simp_all
  have d: "fst (createDirectories env_mixed state0) = Inr ()"
    using env_mixed_directories by (metis fst_conv)
  from report_details_follow_input_order [OF k _ env_mixed_directories l] c
  have "\<exists>rep. files (snd (main env_mixed state0)) (reportLatestPath env_mixed) = Some (Json rep)
           \<and> map url (details rep) = [''https://b.test/'', ''https://a.test/x'', ''https://b.test/'']"
    by (auto split: prod.splits)
  with k l c d show ?thesis by simp
qed

section \<open>Properties of the extractor\<close>

text \<open>The outcome of \<open>extractToMarkdown\<close>, by the stage that throws first.\<close>

lemma extract_fetch_fails:
  "axios_get env (now s) u = Inl e \<Longrightarrow> extractToMarkdown env u s = (Inl e, emit (HttpGet u) s)"
  by (simp add: extractToMarkdown_def)

lemma extract_convert_fails:
  "axios_get env (now s) u = Inr html \<Longrightarrow> turndown env html = Inl e \<Longrightarrow>
   extractToMarkdown env u s = (Inl e, emit (HttpGet u) s)"
  by (simp add: extractToMarkdown_def)

lemma extract_clean_fails:
  "axios_get env (now s) u = Inr html \<Longrightarrow> turndown env html = Inr md \<Longrightarrow>
   chat_completion env (Suc (now s)) md u = Inl e \<Longrightarrow>
   extractToMarkdown env u s = (Inl e, emit (HttpPost baseURL) (emit (HttpGet u) s))"
  by (simp add: extractToMarkdown_def organizeMarkdown_def now_emit)

lemma extract_name_fails:
  "axios_get env (now s) u = Inr html \<Longrightarrow> turndown env html = Inr md \<Longrightarrow>
   chat_completion env (Suc (now s)) md u = Inr cl \<Longrightarrow> generateFileName env u = Inl e \<Longrightarrow>
   extractToMarkdown env u s = (Inl e, emit (HttpPost baseURL) (emit (HttpGet u) s))"
  by (simp add: extractToMarkdown_def organizeMarkdown_def now_emit)

lemma extract_raw_write_fails:
  "axios_get env (now s) u = Inr html \<Longrightarrow> turndown env html = Inr md \<Longrightarrow>
   chat_completion env (Suc (now s)) md u = Inr cl \<Longrightarrow> generateFileName env u = Inr name \<Longrightarrow>
   writeFileSync env (path_join (raw_dir (DIRS env)) (name @ ''.md'')) (Text md)
     (emit (HttpPost baseURL) (emit (HttpGet u) s)) = (Inl e, s3) \<Longrightarrow>
   extractToMarkdown env u s = (Inl e, s3)"
  by (simp add: extractToMarkdown_def organizeMarkdown_def now_emit Let_def)

lemma extract_clean_write_fails:
  "axios_get env (now s) u = Inr html \<Longrightarrow> turndown env html = Inr md \<Longrightarrow>
   chat_completion env (Suc (now s)) md u = Inr cl \<Longrightarrow> generateFileName env u = Inr name \<Longrightarrow>
   writeFileSync env (path_join (raw_dir (DIRS env)) (name @ ''.md'')) (Text md)
     (emit (HttpPost baseURL) (emit (HttpGet u) s)) = (Inr x, s3) \<Longrightarrow>
   writeFileSync env (path_join (clean_dir (DIRS env)) (name @ ''.md'')) (Text cl) s3 = (Inl e, s4) \<Longrightarrow>
   extractToMarkdown env u s = (Inl e, s4)"
  by (simp add: extractToMarkdown_def organizeMarkdown_def now_emit Let_def)

lemma extract_succeeds:
  "axios_get env (now s) u = Inr html \<Longrightarrow> turndown env html = Inr md \<Longrightarrow>
   chat_completion env (Suc (now s)) md u = Inr cl \<Longrightarrow> generateFileName env u = Inr name \<Longrightarrow>
   writeFileSync env (path_join (raw_dir (DIRS env)) (name @ ''.md'')) (Text md)
     (emit (HttpPost baseURL) (emit (HttpGet u) s)) = (Inr x, s3) \<Longrightarrow>
   writeFileSync env (path_join (clean_dir (DIRS env)) (name @ ''.md'')) (Text cl) s3 = (Inr y, s4) \<Longrightarrow>
   extractToMarkdown env u s =
     (Inr \<lparr>clean = cl, raw = md,
           paths = \<lparr>raw_path = path_join (raw_dir (DIRS env)) (name @ ''.md''),
                    clean_path = path_join (clean_dir (DIRS env)) (name @ ''.md'')\<rparr>,
           fileName = name\<rparr>, s4)"
  by (simp add: extractToMarkdown_def organizeMarkdown_def now_emit Let_def)


text \<open>The raw path and the clean path of a name differ.\<close>

lemma raw_path_not_clean_path:
  "path_join (raw_dir (DIRS env)) f \<noteq> path_join (clean_dir (DIRS env)) f"
  by (simp add: DIRS_def path_join_def)

text \<open>
  Claim C2 says that the pipeline of a URL is all-or-nothing, and in particular that the
  raw file never exists while the clean write did not complete. It fails where the second
  write throws. The output directories exist; the clean file of \<open>https://a.test/x\<close> cannot
  be opened. The extraction ends with that error, the raw file holds the new raw markdown
  in place of its older content, and there is no clean file.
\<close>

theorem raw_file_left_without_clean_file:
  "fst (extractToMarkdown env_clean_write_fails ''https://a.test/x'' state1)
     = Inl (Error ''EACCES: permission denied'')
   \<and> files state1 ''/app/output/raw/a.test_x.md'' = Some (Text ''old content'')
   \<and> files (snd (extractToMarkdown env_clean_write_fails ''https://a.test/x'' state1))
         ''/app/output/raw/a.test_x.md'' = Some (Text ''# Hi!'')
   \<and> files (snd (extractToMarkdown env_clean_write_fails ''https://a.test/x'' state1))
         ''/app/output/clean/a.test_x.md'' = None"
proof (intro conjI)
  show "fst (extractToMarkdown env_clean_write_fails ''https://a.test/x'' state1)
     = Inl (Error ''EACCES: permission denied'')"
    by code_simp
  show "files state1 ''/app/output/raw/a.test_x.md'' = Some (Text ''old content'')"
    by (simp add: state1_def)
  show "files (snd (extractToMarkdown env_clean_write_fails ''https://a.test/x'' state1))
         ''/app/output/raw/a.test_x.md'' = Some (Text ''# Hi!'')"
    by code_simp
  show "files (snd (extractToMarkdown env_clean_write_fails ''https://a.test/x'' state1))
         ''/app/output/clean/a.test_x.md'' = None"
    by code_simp
qed

text \<open>
  Claim C2, amended. The stages run in order and the first one that throws ends the
  extraction, so that no later stage runs. When the fetch, the conversion, the remote
  cleaning or the derivation of the file name throws, no file has been touched. The two
  writes are not undone. A write that throws touches no file but its own, which it leaves
  as it was or holding the first part of the data in place of what it held. When the raw
  write throws, the clean write is not attempted; when the clean write throws, the raw
  file written just before it stays, complete, and the extraction still ends with the
  error.
\<close>

theorem extractToMarkdown_stops_at_first_failure:
  "(\<forall>e. axios_get env (now s) u = Inl e \<longrightarrow>
        extractToMarkdown env u s = (Inl e, emit (HttpGet u) s))
   \<and> (\<forall>html e. axios_get env (now s) u = Inr html \<and> turndown env html = Inl e \<longrightarrow>
        extractToMarkdown env u s = (Inl e, emit (HttpGet u) s))
   \<and> (\<forall>html md e. axios_get env (now s) u = Inr html \<and> turndown env html = Inr md
          \<and> chat_completion env (Suc (now s)) md u = Inl e \<longrightarrow>
        extractToMarkdown env u s = (Inl e, emit (HttpPost baseURL) (emit (HttpGet u) s)))
   \<and> (\<forall>html md cl e. axios_get env (now s) u = Inr html \<and> turndown env html = Inr md
          \<and> chat_completion env (Suc (now s)) md u = Inr cl \<and> generateFileName env u = Inl e \<longrightarrow>
        extractToMarkdown env u s = (Inl e, emit (HttpPost baseURL) (emit (HttpGet u) s)))
   \<and> (\<forall>html md cl name e s3. axios_get env (now s) u = Inr html \<and> turndown env html = Inr md
          \<and> chat_completion env (Suc (now s)) md u = Inr cl \<and> generateFileName env u = Inr name
          \<and> writeFileSync env (path_join (raw_dir (DIRS env)) (name @ ''.md'')) (Text md)
               (emit (HttpPost baseURL) (emit (HttpGet u) s)) = (Inl e, s3) \<longrightarrow>
        extractToMarkdown env u s = (Inl e, s3)
        \<and> trace s3 = trace s @ [HttpGet u, HttpPost baseURL,
                                 WriteFile (path_join (raw_dir (DIRS env)) (name @ ''.md''))]
        \<and> (\<forall>p. p \<noteq> path_join (raw_dir (DIRS env)) (name @ ''.md'') \<longrightarrow> files s3 p = files s p)
        \<and> (files s3 (path_join (raw_dir (DIRS env)) (name @ ''.md''))
              = files s (path_join (raw_dir (DIRS env)) (name @ ''.md''))
            \<or> (\<exists>n. files s3 (path_join (raw_dir (DIRS env)) (name @ ''.md''))
                      = Some (Prefix n (Text md)))))
   \<and> (\<forall>html md cl name e s3 s4. axios_get env (now s) u = Inr html \<and> turndown env html = Inr md
          \<and> chat_completion env (Suc (now s)) md u = Inr cl \<and> generateFileName env u = Inr name
          \<and> writeFileSync env (path_join (raw_dir (DIRS env)) (name @ ''.md'')) (Text md)
               (emit (HttpPost baseURL) (emit (HttpGet u) s)) = (Inr (), s3)
          \<and> writeFileSync env (path_join (clean_dir (DIRS env)) (name @ ''.md'')) (Text cl) s3
               = (Inl e, s4) \<longrightarrow>
        extractToMarkdown env u s = (Inl e, s4)
        \<and> trace s4 = trace s @ [HttpGet u, HttpPost baseURL,
                                 WriteFile (path_join (raw_dir (DIRS env)) (name @ ''.md'')),
                                 WriteFile (path_join (clean_dir (DIRS env)) (name @ ''.md''))]
        \<and> files s4 (path_join (raw_dir (DIRS env)) (name @ ''.md'')) = Some (Text md)
        \<and> (\<forall>p. p \<noteq> path_join (raw_dir (DIRS env)) (name @ ''.md'')
                \<and> p \<noteq> path_join (clean_dir (DIRS env)) (name @ ''.md'') \<longrightarrow> files s4 p = files s p)
        \<and> (files s4 (path_join (clean_dir (DIRS env)) (name @ ''.md''))
              = files s (path_join (clean_dir (DIRS env)) (name @ ''.md''))
            \<or> (\<exists>n. files s4 (path_join (clean_dir (DIRS env)) (name @ ''.md''))
                      = Some (Prefix n (Text cl)))))"
proof (intro conjI allI impI; (elim conjE)?)
  fix e assume "axios_get env (now s) u = Inl e"
  then show "extractToMarkdown env u s = (Inl e, emit (HttpGet u) s)"
    by (rule extract_fetch_fails)
next
  fix html e assume "axios_get env (now s) u = Inr html" "turndown env html = Inl e"
  then show "extractToMarkdown env u s = (Inl e, emit (HttpGet u) s)"
    by (rule extract_convert_fails)
next
  fix html md e
  assume "axios_get env (now s) u = Inr html" "turndown env html = Inr md"
    "chat_completion env (Suc (now s)) md u = Inl e"
  then show "extractToMarkdown env u s = (Inl e, emit (HttpPost baseURL) (emit (HttpGet u) s))"
    by (rule extract_clean_fails)
next
  fix html md cl e
  assume "axios_get env (now s) u = Inr html" "turndown env html = Inr md"
    "chat_completion env (Suc (now s)) md u = Inr cl" "generateFileName env u = Inl e"
  then show "extractToMarkdown env u s = (Inl e, emit (HttpPost baseURL) (emit (HttpGet u) s))"
    by (rule extract_name_fails)
next
  fix html md cl name e s3
  let ?raw = "path_join (raw_dir (DIRS env)) (name @ ''.md'')"
  let ?s2 = "emit (HttpPost baseURL) (emit (HttpGet u) s)"
  assume h: "axios_get env (now s) u = Inr html" "turndown env html = Inr md"
    "chat_completion env (Suc (now s)) md u = Inr cl" "generateFileName env u = Inr name"
    and w: "writeFileSync env ?raw (Text md) ?s2 = (Inl e, s3)"
  have s3: "s3 = snd (writeFileSync env ?raw (Text md) ?s2)" using w by simp
  show "extractToMarkdown env u s = (Inl e, s3)"
    using h w by (rule extract_raw_write_fails)
  show "trace s3 = trace s @ [HttpGet u, HttpPost baseURL, WriteFile ?raw]"
    by (simp add: s3 writeFileSync_trace emit_def)
  show "files s3 p = files s p" if "p \<noteq> ?raw" for p
    using that by (simp add: s3 writeFileSync_other files_emit)
  show "files s3 ?raw = files s ?raw \<or> (\<exists>n. files s3 ?raw = Some (Prefix n (Text md)))"
    using writeFileSync_failed [OF w] by (simp add: files_emit)
next
  fix html md cl name e s3 s4
  let ?raw = "path_join (raw_dir (DIRS env)) (name @ ''.md'')"
  let ?clean = "path_join (clean_dir (DIRS env)) (name @ ''.md'')"
  let ?s2 = "emit (HttpPost baseURL) (emit (HttpGet u) s)"
  assume h: "axios_get env (now s) u = Inr html" "turndown env html = Inr md"
    "chat_completion env (Suc (now s)) md u = Inr cl" "generateFileName env u = Inr name"
    and w1: "writeFileSync env ?raw (Text md) ?s2 = (Inr (), s3)"
    and w2: "writeFileSync env ?clean (Text cl) s3 = (Inl e, s4)"
  have s3: "s3 = snd (writeFileSync env ?raw (Text md) ?s2)" using w1 by simp
  have s4: "s4 = snd (writeFileSync env ?clean (Text cl) s3)" using w2 by simp
  have f3: "files s3 = (files s)(?raw \<mapsto> Text md)"
    using writeFileSync_done [OF w1] by (simp add: files_emit)
  have ne: "?raw \<noteq> ?clean" by (rule raw_path_not_clean_path)
  show "extractToMarkdown env u s = (Inl e, s4)"
    using h w1 w2 by (rule extract_clean_write_fails)
  show "trace s4 = trace s @ [HttpGet u, HttpPost baseURL, WriteFile ?raw, WriteFile ?clean]"
    by (simp add: s4 writeFileSync_trace) (simp add: s3 writeFileSync_trace emit_def)
  show "files s4 ?raw = Some (Text md)"
    using writeFileSync_other [OF ne, of env "Text cl" s3] by (simp add: s4 [symmetric] f3)
  show "files s4 p = files s p" if "p \<noteq> ?raw" "p \<noteq> ?clean" for p
    using that by (simp add: s4 writeFileSync_other f3)
  show "files s4 ?clean = files s ?clean \<or> (\<exists>n. files s4 ?clean = Some (Prefix n (Text cl)))"
    using writeFileSync_failed [OF w2] ne by (simp add: f3)
qed

lemma env_ok_paths:
  "path_join (raw_dir (DIRS env_ok)) (''a.test_x'' @ ''.md'') = ''/app/output/raw/a.test_x.md''"
  "path_join (clean_dir (DIRS env_ok)) (''a.test_x'' @ ''.md'') = ''/app/output/clean/a.test_x.md''"
  by (simp_all add: DIRS_def path_join_def env_ok_def)

lemma generateFileName_a_test: "generateFileName env_ok ''https://a.test/x'' = Inr ''a.test_x''"
  by code_simp

lemma folders_state1:
  "dirname_of ''/app/output/raw/a.test_x.md'' \<in> folders state1"
  "dirname_of ''/app/output/clean/a.test_x.md'' \<in> folders state1"
  by (simp_all add: dirname_of_def state1_def)

theorem extractToMarkdown_stops_at_first_failure_witness:
  "axios_get env_mixed (now state1) ''https://b.test/'' = Inl (Error ''timeout of 30000ms exceeded'')
   \<and> extractToMarkdown env_mixed ''https://b.test/'' state1
       = (Inl (Error ''timeout of 30000ms exceeded''), emit (HttpGet ''https://b.test/'') state1)
   \<and> fst (writeFileSync env_raw_write_fails ''/app/output/raw/a.test_x.md'' (Text ''# Hi!'')
            (emit (HttpPost baseURL) (emit (HttpGet ''https://a.test/x'') state1)))
       = Inl (Error ''ENOSPC: no space left on device'')
   \<and> fst (extractToMarkdown env_raw_write_fails ''https://a.test/x'' state1)
       = Inl (Error ''ENOSPC: no space left on device'')
   \<and> trace (snd (extractToMarkdown env_raw_write_fails ''https://a.test/x'' state1))
       = [HttpGet ''https://a.test/x'', HttpPost baseURL,
          WriteFile ''/app/output/raw/a.test_x.md'']
   \<and> fst (writeFileSync env_clean_write_fails ''/app/output/clean/a.test_x.md'' (Text ''# H'')
            (snd (writeFileSync env_clean_write_fails ''/app/output/raw/a.test_x.md'' (Text ''# Hi!'')
                   (emit (HttpPost baseURL) (emit (HttpGet ''https://a.test/x'') state1)))))
       = Inl (Error ''EACCES: permission denied'')
   \<and> fst (extractToMarkdown env_clean_write_fails ''https://a.test/x'' state1)
       = Inl (Error ''EACCES: permission denied'')
   \<and> files (snd (extractToMarkdown env_clean_write_fails ''https://a.test/x'' state1))
         ''/app/output/raw/a.test_x.md'' = Some (Text ''# Hi!'')"
proof -
  let ?u = "''https://a.test/x''"
  let ?raw = "''/app/output/raw/a.test_x.md''"
  let ?clean = "''/app/output/clean/a.test_x.md''"
  let ?s2 = "emit (HttpPost baseURL) (emit (HttpGet ?u) state1)"
  have f: "axios_get env_mixed (now state1) ''https://b.test/''
             = Inl (Error ''timeout of 30000ms exceeded'')"
    by (simp add: env_mixed_def env_ok_def)
  have 1: "extractToMarkdown env_mixed ''https://b.test/'' state1
       = (Inl (Error ''timeout of 30000ms exceeded''), emit (HttpGet ''https://b.test/'') state1)"
    by (rule extractToMarkdown_stops_at_first_failure [THEN conjunct1, THEN spec, THEN mp, OF f])
  have tr: "trace state1 = []" by (simp add: state1_def)
  have fd: "folders ?s2 = folders state1" by (simp add: folders_emit)
  txt \<open>the raw write breaks off\<close>
  let ?e = env_raw_write_fails
  have g: "axios_get ?e (now state1) ?u = Inr ''<h1>Hi</h1>''"
    "turndown ?e ''<h1>Hi</h1>'' = Inr ''# Hi!''"
    "chat_completion ?e (Suc (now state1)) ''# Hi!'' ?u = Inr ''# H''"
    by (simp_all add: env_raw_write_fails_def env_ok_def)
  have n: "generateFileName ?e ?u = Inr ''a.test_x''"
    using generateFileName_a_test by (simp add: generateFileName_def env_raw_write_fails_def)
  have p: "path_join (raw_dir (DIRS ?e)) (''a.test_x'' @ ''.md'') = ?raw"
    using env_ok_paths(1) by (simp add: DIRS_def env_raw_write_fails_def)
  have w: "fst (writeFileSync ?e ?raw (Text ''# Hi!'') ?s2) = Inl (Error ''ENOSPC: no space left on device'')"
  proof -
    have "dirname_of ?raw \<in> folders ?s2" using folders_state1(1) by (simp only: fd)
    moreover have "fs_write_failure ?e (now ?s2) ?raw
                     = Some (Broken (Error ''ENOSPC: no space left on device'') 0)"
      by (simp add: env_raw_write_fails_def)
    ultimately show ?thesis by (simp only: writeFileSync_broken fst_conv)
  qed
  then have w': "writeFileSync ?e (path_join (raw_dir (DIRS ?e)) (''a.test_x'' @ ''.md'')) (Text ''# Hi!'') ?s2
                  = (Inl (Error ''ENOSPC: no space left on device''),
                     snd (writeFileSync ?e ?raw (Text ''# Hi!'') ?s2))"
    unfolding p by (simp add: prod_eq_iff)
  have pre: "axios_get ?e (now state1) ?u = Inr ''<h1>Hi</h1>''
       \<and> turndown ?e ''<h1>Hi</h1>'' = Inr ''# Hi!''
       \<and> chat_completion ?e (Suc (now state1)) ''# Hi!'' ?u = Inr ''# H''
       \<and> generateFileName ?e ?u = Inr ''a.test_x''
       \<and> writeFileSync ?e (path_join (raw_dir (DIRS ?e)) (''a.test_x'' @ ''.md'')) (Text ''# Hi!'') ?s2
           = (Inl (Error ''ENOSPC: no space left on device''),
              snd (writeFileSync ?e ?raw (Text ''# Hi!'') ?s2))"
    using g n w' by (intro conjI)
  from extractToMarkdown_stops_at_first_failure
         [THEN conjunct2, THEN conjunct2, THEN conjunct2, THEN conjunct2, THEN conjunct1,
          rule_format, OF pre]
  have 2: "extractToMarkdown ?e ?u state1
             = (Inl (Error ''ENOSPC: no space left on device''),
                snd (writeFileSync ?e ?raw (Text ''# Hi!'') ?s2))"
    and 3: "trace (snd (writeFileSync ?e ?raw (Text ''# Hi!'') ?s2))
             = trace state1 @ [HttpGet ?u, HttpPost baseURL,
                 WriteFile (path_join (raw_dir (DIRS ?e)) (''a.test_x'' @ ''.md''))]"
    by (simp_all only:)
  have r2: "fst (extractToMarkdown ?e ?u state1) = Inl (Error ''ENOSPC: no space left on device'')"
    by (simp add: 2)
  have r3: "trace (snd (extractToMarkdown ?e ?u state1))
              = [HttpGet ?u, HttpPost baseURL, WriteFile ?raw]"
    using 3 unfolding p by (simp add: 2 tr)
  txt \<open>the clean write is refused\<close>
  let ?c = env_clean_write_fails
  let ?s3 = "snd (writeFileSync ?c ?raw (Text ''# Hi!'') ?s2)"
  have gc: "axios_get ?c (now state1) ?u = Inr ''<h1>Hi</h1>''"
    "turndown ?c ''<h1>Hi</h1>'' = Inr ''# Hi!''"
    "chat_completion ?c (Suc (now state1)) ''# Hi!'' ?u = Inr ''# H''"
    by (simp_all add: env_clean_write_fails_def env_ok_def)
  have nc: "generateFileName ?c ?u = Inr ''a.test_x''"
    using generateFileName_a_test by (simp add: generateFileName_def env_clean_write_fails_def)
  have pc: "path_join (raw_dir (DIRS ?c)) (''a.test_x'' @ ''.md'') = ?raw"
    "path_join (clean_dir (DIRS ?c)) (''a.test_x'' @ ''.md'') = ?clean"
    using env_ok_paths by (simp_all add: DIRS_def env_clean_write_fails_def)
  have w1: "fst (writeFileSync ?c ?raw (Text ''# Hi!'') ?s2) = Inr ()"
  proof -
    have "dirname_of ?raw \<in> folders ?s2" using folders_state1(1) by (simp only: fd)
    moreover have "fs_write_failure ?c (now ?s2) ?raw = None"
      by (simp add: env_clean_write_fails_def)
    ultimately show ?thesis by (simp only: writeFileSync_succeeds fst_conv)
  qed
  then have w1': "writeFileSync ?c (path_join (raw_dir (DIRS ?c)) (''a.test_x'' @ ''.md'')) (Text ''# Hi!'') ?s2
                   = (Inr (), ?s3)"
    unfolding pc by (simp add: prod_eq_iff)
  have fd3: "folders ?s3 = folders state1" by (simp add: writeFileSync_folders fd)
  have w2: "fst (writeFileSync ?c ?clean (Text ''# H'') ?s3) = Inl (Error ''EACCES: permission denied'')"
  proof -
    have "dirname_of ?clean \<in> folders ?s3" using folders_state1(2) by (simp only: fd3)
    moreover have "fs_write_failure ?c (now ?s3) ?clean
                     = Some (Refused (Error ''EACCES: permission denied''))"
      by (simp add: env_clean_write_fails_def)
    ultimately show ?thesis by (simp only: writeFileSync_refused fst_conv)
  qed
  then have w2': "writeFileSync ?c (path_join (clean_dir (DIRS ?c)) (''a.test_x'' @ ''.md'')) (Text ''# H'') ?s3
                   = (Inl (Error ''EACCES: permission denied''),
                      snd (writeFileSync ?c ?clean (Text ''# H'') ?s3))"
    unfolding pc by (simp add: prod_eq_iff)
  have prec: "axios_get ?c (now state1) ?u = Inr ''<h1>Hi</h1>''
       \<and> turndown ?c ''<h1>Hi</h1>'' = Inr ''# Hi!''
       \<and> chat_completion ?c (Suc (now state1)) ''# Hi!'' ?u = Inr ''# H''
       \<and> generateFileName ?c ?u = Inr ''a.test_x''
       \<and> writeFileSync ?c (path_join (raw_dir (DIRS ?c)) (''a.test_x'' @ ''.md'')) (Text ''# Hi!'') ?s2
           = (Inr (), ?s3)
       \<and> writeFileSync ?c (path_join (clean_dir (DIRS ?c)) (''a.test_x'' @ ''.md'')) (Text ''# H'') ?s3
           = (Inl (Error ''EACCES: permission denied''),
              snd (writeFileSync ?c ?clean (Text ''# H'') ?s3))"
    using gc nc w1' w2' by (intro conjI)
  from extractToMarkdown_stops_at_first_failure
         [THEN conjunct2, THEN conjunct2, THEN conjunct2, THEN conjunct2, THEN conjunct2,
          rule_format, OF prec]
  have 4: "extractToMarkdown ?c ?u state1
             = (Inl (Error ''EACCES: permission denied''),
                snd (writeFileSync ?c ?clean (Text ''# H'') ?s3))"
    and 5: "files (snd (writeFileSync ?c ?clean (Text ''# H'') ?s3))
              (path_join (raw_dir (DIRS ?c)) (''a.test_x'' @ ''.md'')) = Some (Text ''# Hi!'')"
    by (simp_all only:)
  have r4: "fst (extractToMarkdown ?c ?u state1) = Inl (Error ''EACCES: permission denied'')"
    by (simp add: 4)
  have r5: "files (snd (extractToMarkdown ?c ?u state1)) ?raw = Some (Text ''# Hi!'')"
    using 5 unfolding pc by (simp add: 4)
  from f 1 w r2 r3 w2 r4 r5 show ?thesis by (intro conjI)
qed

text \<open>
  A raw write that breaks off: the older content of the raw file is gone, the file is
  empty, and the clean write has not been attempted.
\<close>

lemma broken_raw_write_truncates:
  "files (snd (extractToMarkdown env_raw_write_fails ''https://a.test/x'' state1))
     ''/app/output/raw/a.test_x.md'' = Some (Prefix 0 (Text ''# Hi!''))"
  by code_simp

section \<open>Properties of a run\<close>

lemma files_start_state: "files (start_state env s) = files s"
  by (simp add: start_state_def files_emit)

lemma trace_emit: "trace (emit ev s) = trace s @ [ev]"
  by (simp add: emit_def)

lemma createDirectories_files_eq:
  "createDirectories env s = (r, s1) \<Longrightarrow> files s1 = files s"
  using createDirectories_files [of env s] by simp

lemma loop_body_failure:
  "extractToMarkdown env u s = (Inl e, s') \<Longrightarrow>
   loop_body env u (rep, s) =
     (rep\<lparr>errors := errors rep + 1,
          details := details rep @ [Failure u (message e) (clock env (now s'))]\<rparr>, s')"
  by (simp add: loop_body_def)

lemma loop_body_success:
  "extractToMarkdown env u s = (Inr r, s') \<Longrightarrow>
   loop_body env u (rep, s) =
     (rep\<lparr>successes := successes rep + 1,
          details := details rep @
            [Success u (fileName r) (length (clean r)) (length (raw r))
               (compression_of env (length (clean r)) (length (raw r))) (paths r)]\<rparr>,
      emit (Sleep 1000) s')"
  by (simp add: loop_body_def)

text \<open>
  Claim C3. The list holds one URL, whose fetch and conversion succeed and whose remote
  cleaning fails with error \<open>e\<close> (with a credential and the output directories, without
  which no URL is processed). Then the report that the run goes on to write has
  \<open>total = 1\<close>, \<open>successes = 0\<close>, \<open>errors = 1\<close> and one entry, of status \<open>error\<close>, with
  the URL and the message of \<open>e\<close>. After the GET and the POST no write to the raw or the
  clean directory takes place: the only writes of the run are those of the two report
  files, and no other file changes. When the run completes, the two report files hold
  that report.
\<close>

theorem clean_failure_single_url_report:
  assumes key: "OPENAI_API_KEY env = Some k" "k \<noteq> []"
    and dirs: "createDirectories env s = (Inr x, s1)"
    and links: "links_json env = Inr (Array [u])"
    and fetch: "\<And>t. axios_get env t u = Inr html"
    and conv: "turndown env html = Inr md"
    and clean: "\<And>t. chat_completion env t md u = Inl e"
  shows "let s3 = emit (HttpPost baseURL) (emit (HttpGet u) (start_state env s1));
             rep = \<lparr>timestamp = clock env (now (start_state env s1)), total = 1, successes = 0,
                    errors = 1, directories = DIRS env,
                    details = [Failure u (message e) (clock env (now s3))]\<rparr>
         in main env s = saveReport env rep s3
            \<and> map status (details rep) = [''error'']
            \<and> files s3 = files s
            \<and> trace s3 = trace s1 @ [ReadFile (linksPath env), HttpGet u, HttpPost baseURL]
            \<and> (trace (snd (main env s)) = trace s3 @ [WriteFile (reportPath env s3)]
                \<or> trace (snd (main env s)) =
                    trace s3 @ [WriteFile (reportPath env s3), WriteFile (reportLatestPath env)])
            \<and> (\<forall>p. p \<noteq> reportPath env s3 \<and> p \<noteq> reportLatestPath env \<longrightarrow>
                  files (snd (main env s)) p = files s p)
            \<and> (fst (main env s) = Completed \<longrightarrow>
                  files (snd (main env s)) =
                    (files s)(reportPath env s3 \<mapsto> Json rep, reportLatestPath env \<mapsto> Json rep)
                  \<and> trace (snd (main env s)) =
                      trace s1 @ [ReadFile (linksPath env), HttpGet u, HttpPost baseURL,
                                  WriteFile (reportPath env s3), WriteFile (reportLatestPath env)])"
proof -
  let ?s2 = "start_state env s1"
  let ?s3 = "emit (HttpPost baseURL) (emit (HttpGet u) ?s2)"
  let ?init = "new_report env [u] ?s2"
  let ?rep = "\<lparr>timestamp = clock env (now ?s2), total = 1, successes = 0,
                 errors = 1, directories = DIRS env,
                 details = [Failure u (message e) (clock env (now ?s3))]\<rparr>"
  have ex: "extractToMarkdown env u ?s2 = (Inl e, ?s3)"
    using fetch conv clean by (rule extract_clean_fails)
  have body: "loop_body env u (?init, ?s2) = (?rep, ?s3)"
    using loop_body_failure [OF ex, where rep = ?init] by (simp add: new_report_def)
  have lp: "loop env [u] (?init, ?s2) = (?rep, ?s3)"
    using body by simp
  have m: "main env s = saveReport env ?rep ?s3"
    using main_saveReport [OF key dirs links] lp by simp
  have f3: "files ?s3 = files s"
    using createDirectories_files_eq [OF dirs] by (simp add: files_emit files_start_state)
  have t3: "trace ?s3 = trace s1 @ [ReadFile (linksPath env), HttpGet u, HttpPost baseURL]"
    by (simp add: trace_emit start_state_def)
  have tr: "trace (snd (main env s)) = trace ?s3 @ [WriteFile (reportPath env ?s3)]
            \<or> trace (snd (main env s)) =
                trace ?s3 @ [WriteFile (reportPath env ?s3), WriteFile (reportLatestPath env)]"
    using saveReport_trace [of env ?rep ?s3] by (simp only: m)
  have other: "\<forall>p. p \<noteq> reportPath env ?s3 \<and> p \<noteq> reportLatestPath env \<longrightarrow>
                  files (snd (main env s)) p = files s p"
    using saveReport_other [of _ env ?s3 ?rep] by (simp add: m f3)
  have compl: "fst (main env s) = Completed \<longrightarrow>
                files (snd (main env s)) =
                  (files s)(reportPath env ?s3 \<mapsto> Json ?rep, reportLatestPath env \<mapsto> Json ?rep)
                \<and> trace (snd (main env s)) =
                    trace s1 @ [ReadFile (linksPath env), HttpGet u, HttpPost baseURL,
                                WriteFile (reportPath env ?s3), WriteFile (reportLatestPath env)]"
    using saveReport_Completed [of env ?rep ?s3] by (simp add: m f3 t3)
  have st: "map status (details ?rep) = [''error'']" by simp
  show ?thesis
    unfolding Let_def using m st f3 t3 tr other compl by (intro conjI)
qed

lemma env_auth_error_facts:
  "OPENAI_API_KEY env_auth_error = Some ''sk-test''"
  "links_json env_auth_error = Inr (Array [''https://a.test/x''])"
  "axios_get env_auth_error t ''https://a.test/x'' = Inr ''<h1>Hi</h1>''"
  "turndown env_auth_error ''<h1>Hi</h1>'' = Inr ''# Hi!''"
  "chat_completion env_auth_error t ''# Hi!'' ''https://a.test/x''
     = Inl (Error ''Request failed with status code 401'')"
  "clock env_auth_error t = ''2025-07-05T14:44:24.939Z''"
  "dirname env_auth_error = ''/app''"
  "fs_write_failure env_auth_error t p = None"
  by (simp_all add: env_auth_error_def env_ok_def)

lemma env_auth_error_directories:
  "createDirectories env_auth_error state0 = (Inr (), snd (createDirectories env_auth_error state0))"
proof -
  have "fst (createDirectories env_auth_error state0) = Inr ()" by code_simp
  then show ?thesis by (simp add: prod_eq_iff)
qed

theorem clean_failure_single_url_report_witness:
  "OPENAI_API_KEY env_auth_error = Some ''sk-test'' \<and> ''sk-test'' \<noteq> []
   \<and> fst (createDirectories env_auth_error state0) = Inr ()
   \<and> links_json env_auth_error = Inr (Array [''https://a.test/x''])
   \<and> (\<forall>t. axios_get env_auth_error t ''https://a.test/x'' = Inr ''<h1>Hi</h1>'')
   \<and> turndown env_auth_error ''<h1>Hi</h1>'' = Inr ''# Hi!''
   \<and> (\<forall>t. chat_completion env_auth_error t ''# Hi!'' ''https://a.test/x''
             = Inl (Error ''Request failed with status code 401''))
   \<and> fst (main env_auth_error state0) = Completed
   \<and> files (snd (main env_auth_error state0)) ''/app/output/reports/report_latest.json'' =
        Some (Json \<lparr>timestamp = ''2025-07-05T14:44:24.939Z'', total = 1, successes = 0, errors = 1,
                     directories = DIRS env_auth_error,
                     details = [Failure ''https://a.test/x'' ''Request failed with status code 401''
                                  ''2025-07-05T14:44:24.939Z'']\<rparr>)
   \<and> files (snd (main env_auth_error state0)) ''/app/output/raw/a.test_x.md'' = None
   \<and> files (snd (main env_auth_error state0)) ''/app/output/clean/a.test_x.md'' = None"
proof -
  note k = env_auth_error_facts(1) and l = env_auth_error_facts(2)
    and f = env_auth_error_facts(3) and c = env_auth_error_facts(4)
    and g = env_auth_error_facts(5) and ck = env_auth_error_facts(6)
    and d = env_auth_error_facts(7)
  have dd: "fst (createDirectories env_auth_error state0) = Inr ()"
    using env_auth_error_directories by (metis fst_conv)
  have compl: "fst (main env_auth_error state0) = Completed"
    using k _ env_auth_error_directories l _ env_auth_error_facts(8)
    by (rule main_Completed) (simp_all add: ck)
  note r = clean_failure_single_url_report
             [OF k _ env_auth_error_directories l f c g, unfolded Let_def]
  from r compl
  have fs: "files (snd (main env_auth_error state0)) =
        (files state0)
          (reportPath env_auth_error
             (emit (HttpPost baseURL) (emit (HttpGet ''https://a.test/x'')
                (start_state env_auth_error (snd (createDirectories env_auth_error state0))))) \<mapsto>
             Json \<lparr>timestamp = clock env_auth_error
                                  (now (start_state env_auth_error
                                          (snd (createDirectories env_auth_error state0)))),
                    total = 1, successes = 0, errors = 1, directories = DIRS env_auth_error,
                    details = [Failure ''https://a.test/x''
                      (message (Error ''Request failed with status code 401''))
                      (clock env_auth_error
                         (now (emit (HttpPost baseURL) (emit (HttpGet ''https://a.test/x'')
                            (start_state env_auth_error
                               (snd (createDirectories env_auth_error state0)))))))]\<rparr>,
           reportLatestPath env_auth_error \<mapsto>
             Json \<lparr>timestamp = clock env_auth_error
                                  (now (start_state env_auth_error
                                          (snd (createDirectories env_auth_error state0)))),
                    total = 1, successes = 0, errors = 1, directories = DIRS env_auth_error,
                    details = [Failure ''https://a.test/x''
                      (message (Error ''Request failed with status code 401''))
                      (clock env_auth_error
                         (now (emit (HttpPost baseURL) (emit (HttpGet ''https://a.test/x'')
                            (start_state env_auth_error
                               (snd (createDirectories env_auth_error state0)))))))]\<rparr>)"
    by blast
  have 2: "files (snd (main env_auth_error state0)) ''/app/output/reports/report_latest.json'' =
        Some (Json \<lparr>timestamp = ''2025-07-05T14:44:24.939Z'', total = 1, successes = 0, errors = 1,
                     directories = DIRS env_auth_error,
                     details = [Failure ''https://a.test/x'' ''Request failed with status code 401''
                                  ''2025-07-05T14:44:24.939Z'']\<rparr>)"
    unfolding fs by (simp add: ck d reportLatestPath_def reportPath_def DIRS_def path_join_def)
  have 3: "files (snd (main env_auth_error state0)) ''/app/output/raw/a.test_x.md'' = None"
    unfolding fs
    by (simp add: ck d reportLatestPath_def reportPath_def DIRS_def path_join_def state0_def
          file_timestamp_def)
  have 4: "files (snd (main env_auth_error state0)) ''/app/output/clean/a.test_x.md'' = None"
    unfolding fs
    by (simp add: ck d reportLatestPath_def reportPath_def DIRS_def path_join_def state0_def
          file_timestamp_def)
  from k l f c g dd compl 2 3 4 show ?thesis by simp
qed

text \<open>
  The one-second wait is the last statement of the try block: the loop waits once for
  each URL that succeeded, and not at all after a URL that failed.
\<close>

lemma sleeps_emit: "sleeps (emit ev s) = sleeps s + (if is_Sleep ev then 1 else 0)"
  by (simp add: sleeps_def emit_def)

lemma sleeps_files: "sleeps (s\<lparr>files := f\<rparr>) = sleeps s"
  by (simp add: sleeps_def)

lemma sleeps_writeFileSync: "sleeps (snd (writeFileSync env p d s)) = sleeps s"
  by (simp add: writeFileSync_def sleeps_emit sleeps_files
        split: option.splits write_failure.splits)

lemma sleeps_extractToMarkdown: "sleeps (snd (extractToMarkdown env u s)) = sleeps s"
proof -
  have w: "\<And>p d s r s'. writeFileSync env p d s = (r, s') \<Longrightarrow> sleeps s' = sleeps s"
    using sleeps_writeFileSync by (metis snd_conv)
  show ?thesis
    by (auto simp: extractToMarkdown_def organizeMarkdown_def sleeps_emit Let_def
             split: sum.splits prod.splits dest!: w)
qed

lemma sleeps_loop_body:
  "sleeps (snd (loop_body env u (rep, s))) + successes rep
     = sleeps s + successes (fst (loop_body env u (rep, s)))"
proof (cases "extractToMarkdown env u s")
  case (Pair r s')
  have "sleeps s' = sleeps s"
    using sleeps_extractToMarkdown [of env u s] Pair by simp
  then show ?thesis
    using Pair by (cases r) (simp_all add: loop_body_def sleeps_emit)
qed

lemma sleeps_loop:
  "sleeps (snd (loop env us (rep, s))) + successes rep
     = sleeps s + successes (fst (loop env us (rep, s)))"
proof (induction us arbitrary: rep s)
  case Nil
  show ?case by simp
next
  case (Cons u us)
  obtain rep1 s1 where step: "loop_body env u (rep, s) = (rep1, s1)"
    by (cases "loop_body env u (rep, s)")
  have "sleeps s1 + successes rep = sleeps s + successes rep1"
    using sleeps_loop_body [of env u rep s] step by simp
  moreover have "sleeps (snd (loop env us (rep1, s1))) + successes rep1
                   = sleeps s1 + successes (fst (loop env us (rep1, s1)))"
    by (rule Cons.IH)
  ultimately show ?case using step by simp
qed

text \<open>
  Claim C1 says that the loop waits 1000 ms after every URL, failed or not. The run on
  the single URL \<open>https://a.test/x\<close>, whose remote cleaning is refused, records the
  failure and performs no wait at all: the trace of the whole run holds no \<open>Sleep\<close>.
\<close>

theorem no_delay_after_failed_url:
  "links_json env_auth_error = Inr (Array [''https://a.test/x''])
   \<and> fst (main env_auth_error state0) = Completed
   \<and> trace (snd (main env_auth_error state0)) =
       [Mkdir ''/app/output/raw'', Mkdir ''/app/output/clean'', Mkdir ''/app/output/reports'',
        ReadFile ''/app/linksExtractor.json'', HttpGet ''https://a.test/x'',
        HttpPost ''https://api.openai.com/v1/chat/completions'',
        WriteFile ''/app/output/reports/report_2025-07-05T14-44-24-939Z.json'',
        WriteFile ''/app/output/reports/report_latest.json'']
   \<and> sleeps (snd (main env_auth_error state0)) = 0"
proof (intro conjI)
  show "links_json env_auth_error = Inr (Array [''https://a.test/x''])"
    by (simp add: env_auth_error_def env_ok_def)
  show "fst (main env_auth_error state0) = Completed"
    by code_simp
  show "trace (snd (main env_auth_error state0)) =
       [Mkdir ''/app/output/raw'', Mkdir ''/app/output/clean'', Mkdir ''/app/output/reports'',
        ReadFile ''/app/linksExtractor.json'', HttpGet ''https://a.test/x'',
        HttpPost ''https://api.openai.com/v1/chat/completions'',
        WriteFile ''/app/output/reports/report_2025-07-05T14-44-24-939Z.json'',
        WriteFile ''/app/output/reports/report_latest.json'']"
    by code_simp
  show "sleeps (snd (main env_auth_error state0)) = 0"
    by code_simp
qed









section \<open>Properties of the compression figure\<close>

lemma compression_of_empty_raw:
  "compression_of env c 0 = (if c = 0 then ''NaN%'' else ''-Infinity%'')"
  by (simp add: compression_of_def js_div_lengths_def toFixed1_def)

lemma percentage_of_empty_raw:
  "js_times_100 (js_one_minus (js_div_lengths c 0)) = (if c = 0 then NaN else NegInfinity)"
  by (simp add: js_div_lengths_def)

text \<open>
  Claim C8. Nothing guards the division against a raw markdown of length zero. When an
  extraction succeeds with an empty raw markdown, the loop still counts a success and
  pushes a success entry; the division by zero is carried out, the percentage is NaN (for
  an empty clean markdown) or minus infinity, never a finite Number, and the recorded
  compression is \<open>NaN%\<close> or \<open>-Infinity%\<close>.
\<close>

theorem zero_length_raw_gives_non_finite_compression:
  assumes "extractToMarkdown env u s = (Inr r, s')" and "raw r = []"
  shows "loop_body env u (rep, s) =
           (rep\<lparr>successes := successes rep + 1,
                details := details rep @
                  [Success u (fileName r) (length (clean r)) 0
                     (if clean r = [] then ''NaN%'' else ''-Infinity%'') (paths r)]\<rparr>,
            emit (Sleep 1000) s')
         \<and> (\<forall>q. js_times_100 (js_one_minus (js_div_lengths (length (clean r)) (length (raw r))))
                  \<noteq> Num q)"
  using assms by (simp add: loop_body_success compression_of_empty_raw percentage_of_empty_raw)

theorem zero_length_raw_gives_non_finite_compression_witness:
  "fst (extractToMarkdown env_empty_page ''https://a.test/x'' state1) =
     Inr \<lparr>clean = ''# H'', raw = [],
          paths = \<lparr>raw_path = ''/app/output/raw/a.test_x.md'',
                   clean_path = ''/app/output/clean/a.test_x.md''\<rparr>,
          fileName = ''a.test_x''\<rparr>
   \<and> details (fst (loop_body env_empty_page ''https://a.test/x''
                      (new_report env_empty_page [''https://a.test/x''] state1, state1))) =
       [Success ''https://a.test/x'' ''a.test_x'' 3 0 ''-Infinity%''
          \<lparr>raw_path = ''/app/output/raw/a.test_x.md'',
           clean_path = ''/app/output/clean/a.test_x.md''\<rparr>]"
proof -
  let ?r = "\<lparr>clean = ''# H'', raw = [],
             paths = \<lparr>raw_path = ''/app/output/raw/a.test_x.md'',
                      clean_path = ''/app/output/clean/a.test_x.md''\<rparr>,
             fileName = ''a.test_x''\<rparr>"
  have f: "fst (extractToMarkdown env_empty_page ''https://a.test/x'' state1) = Inr ?r"
    by code_simp
  then have ex: "extractToMarkdown env_empty_page ''https://a.test/x'' state1 =
                   (Inr ?r, snd (extractToMarkdown env_empty_page ''https://a.test/x'' state1))"
    by (simp add: prod_eq_iff)
  have e: "raw ?r = []" by simp
  from zero_length_raw_gives_non_finite_compression [OF ex e,
         of "new_report env_empty_page [''https://a.test/x''] state1"] f
  show ?thesis by (simp add: new_report_def)
qed

section \<open>Rounding to a double\<close>



















section \<open>One fraction digit\<close>






lemma nearest_tenths_error: "\<bar>of_nat (nearest_tenths x) / 10 - \<bar>x\<bar>\<bar> \<le> 1 / 20"
proof -
  define A where "A = \<bar>x\<bar>"
  define k :: rat where "k = of_int \<lfloor>A * 10 + 1 / 2\<rfloor>"
  have "0 \<le> A" by (simp add: A_def)
  then have "0 \<le> \<lfloor>A * 10 + 1 / 2\<rfloor>" by simp
  then have n: "(of_nat (nearest_tenths x) :: rat) = k"
    by (simp add: nearest_tenths_def A_def k_def)
  have "k \<le> A * 10 + 1 / 2" "A * 10 + 1 / 2 < k + 1"
    unfolding k_def by linarith+
  then have "k / 10 - A \<le> 1 / 20" "- (1 / 20) \<le> k / 10 - A"
    by linarith+
  then have "\<bar>k / 10 - A\<bar> \<le> 1 / 20" by (simp only: abs_le_iff) simp
  then show ?thesis by (simp only: n A_def)
qed






end
